theory Spec2Isabelle
  imports Complex_Main "HOL-Library.Char_ord" "HOL-Library.List_Lexorder"
begin

section \<open>Conventions of the embedding\<close>

text \<open>
  The development embeds the analytics core of the sales dashboard
  (\<^verbatim>\<open>src/utils/dataProcessor.ts\<close> and the deduplicating normaliser of
  \<^verbatim>\<open>src/unnamed/part_002\<close>).

  \<^item> A JavaScript number is an exact \<^typ>\<open>real\<close>; the value NaN is written out where the
    code can produce it (type \<open>jsnum\<close>, or \<open>None\<close> for a time value). Rounding error
    of IEEE doubles and the infinities are outside the model.
  \<^item> The exceptions are \<^verbatim>\<open>calculateInventoryMetrics\<close> and \<^verbatim>\<open>analyzeProfitMargin\<close>, which
    round (\<^verbatim>\<open>Math.round\<close>, \<^verbatim>\<open>Math.ceil\<close>) what inexact operations have computed, so
    that a rounding error of the last bit can move a result by a whole unit. There a number
    is the real that the double stands for, and the operations \<^verbatim>\<open>+\<close>, \<^verbatim>\<open>-\<close>, \<^verbatim>\<open>*\<close>,
    \<^verbatim>\<open>/\<close>, \<^verbatim>\<open>Math.pow\<close>, \<^verbatim>\<open>Math.sqrt\<close> and the reading of a decimal literal are the fields of a record \<open>js_arith\<close>
    that the two functions take as their first argument: what is proved of them holds
    however the host rounds these operations. \<^verbatim>\<open>Math.round\<close>, \<^verbatim>\<open>Math.ceil\<close> and the
    comparisons are exact on doubles and are modelled as such.
  \<^item> A string is a list of 8-bit characters holding its UTF-8 encoding. The comparison
    \<open><\<close> is lexicographic on character codes, as JavaScript's comparison of strings is
    on ASCII text.
  \<^item> A \<^verbatim>\<open>Map\<close> is an association list in insertion order, the order in which
    \<^verbatim>\<open>Map.prototype.entries\<close> iterates.
  \<^item> \<^verbatim>\<open>Array.prototype.sort\<close> is the stable sort by the comparator it is given.
  \<^item> The built-ins whose result depends on the host (\<^verbatim>\<open>String.prototype.toLowerCase\<close>,
    \<^verbatim>\<open>Number\<close> and \<^verbatim>\<open>String\<close> on their argument, \<^verbatim>\<open>Date.parse\<close>,
    \<^verbatim>\<open>String.prototype.localeCompare\<close>) are the
    fields of a record \<open>js_builtins\<close> that every function using them takes as its first
    argument.
\<close>

section \<open>JavaScript values\<close>

datatype jsval = JUndefined | JNull | JBool bool | JNum real | JStr string

datatype jsnum = Finite real | NaN

datatype js_error = RangeError

record js_builtins =
  toLowerCase :: "string \<Rightarrow> string"
  stringToNumber :: "string \<Rightarrow> jsnum"
  numberToString :: "real \<Rightarrow> string"
  dateParse :: "string \<Rightarrow> int option"
  localeCompare :: "string \<Rightarrow> string \<Rightarrow> real"

text \<open>Truthiness of a value, as tested by \<^verbatim>\<open>if (v)\<close>, \<^verbatim>\<open>v || d\<close> and \<^verbatim>\<open>v ? a : b\<close>.\<close>

fun truthy :: "jsval \<Rightarrow> bool" where
  "truthy JUndefined = False"
| "truthy JNull = False"
| "truthy (JBool b) = b"
| "truthy (JNum x) = (x \<noteq> 0)"
| "truthy (JStr s) = (s \<noteq> [])"

text \<open>\<^verbatim>\<open>Number(v)\<close>.\<close>

fun toNumber :: "js_builtins \<Rightarrow> jsval \<Rightarrow> jsnum" where
  "toNumber js JUndefined = NaN"
| "toNumber js JNull = Finite 0"
| "toNumber js (JBool b) = Finite (if b then 1 else 0)"
| "toNumber js (JNum x) = Finite x"
| "toNumber js (JStr s) = stringToNumber js s"

text \<open>\<^verbatim>\<open>n || 0\<close> for a number \<open>n\<close>: NaN and zero are falsy.\<close>

fun orZero :: "jsnum \<Rightarrow> real" where
  "orZero NaN = 0"
| "orZero (Finite x) = x"

text \<open>\<^verbatim>\<open>String(v)\<close>.\<close>

fun toString :: "js_builtins \<Rightarrow> jsval \<Rightarrow> string" where
  "toString js JUndefined = ''undefined''"
| "toString js JNull = ''null''"
| "toString js (JBool b) = (if b then ''true'' else ''false'')"
| "toString js (JNum x) = numberToString js x"
| "toString js (JStr s) = s"

text \<open>\<^verbatim>\<open>String.prototype.includes\<close>: the pattern occurs somewhere in the string.\<close>

fun startsWith :: "string \<Rightarrow> string \<Rightarrow> bool" where
  "startsWith s [] = True"
| "startsWith [] (p # ps) = False"
| "startsWith (c # cs) (p # ps) = (c = p \<and> startsWith cs ps)"

fun includesStr :: "string \<Rightarrow> string \<Rightarrow> bool" where
  "includesStr [] p = (p = [])"
| "includesStr (c # cs) p = (startsWith (c # cs) p \<or> includesStr cs p)"

subsection \<open>Dates\<close>

text \<open>
  A \<^verbatim>\<open>Date\<close> object is its time value: \<open>Some t\<close> with \<open>t\<close> the milliseconds since
  the Unix epoch, or \<open>None\<close> for an invalid date (time value NaN).
  \<open>timeClip\<close> is the clipping that \<^verbatim>\<open>new Date(number)\<close> applies.
\<close>

definition timeClip :: "real \<Rightarrow> int option" where
  "timeClip t = (if \<bar>t\<bar> > 8640000000000000 then None
                 else Some (if 0 \<le> t then \<lfloor>t\<rfloor> else \<lceil>t\<rceil>))"

fun newDate :: "js_builtins \<Rightarrow> jsval \<Rightarrow> int option" where
  "newDate js JUndefined = None"
| "newDate js JNull = Some 0"
| "newDate js (JBool b) = Some (if b then 1 else 0)"
| "newDate js (JNum x) = timeClip x"
| "newDate js (JStr s) = dateParse js s"

text \<open>The proleptic Gregorian date (year, month, day) of a day number counted from 1970-01-01.\<close>

definition civilFromDays :: "int \<Rightarrow> int \<times> int \<times> int" where
  "civilFromDays n =
     (let z = n + 719468;
          era = z div 146097;
          doe = z - era * 146097;
          yoe = (doe - doe div 1460 + doe div 36524 - doe div 146096) div 365;
          doy = doe - (365 * yoe + yoe div 4 - yoe div 100);
          mp = (5 * doy + 2) div 153;
          d = doy - (153 * mp + 2) div 5 + 1;
          m = (if mp < 10 then mp + 3 else mp - 9);
          y = yoe + era * 400 + (if m \<le> 2 then 1 else 0)
      in (y, m, d))"

text \<open>The inverse direction: the day number of a date.\<close>

definition daysFromCivil :: "int \<Rightarrow> int \<Rightarrow> int \<Rightarrow> int" where
  "daysFromCivil y0 m d =
     (let y = (if m \<le> 2 then y0 - 1 else y0);
          era = y div 400;
          yoe = y - era * 400;
          doy = (153 * (if m > 2 then m - 3 else m + 9) + 2) div 5 + d - 1;
          doe = yoe * 365 + yoe div 4 - yoe div 100 + doy
      in era * 146097 + doe - 719468)"

definition digitChar :: "int \<Rightarrow> char" where
  "digitChar n = ''0123456789'' ! nat (n mod 10)"

fun padDigits :: "nat \<Rightarrow> int \<Rightarrow> string" where
  "padDigits 0 n = []"
| "padDigits (Suc w) n = padDigits w (n div 10) @ [digitChar n]"

definition yearString :: "int \<Rightarrow> string" where
  "yearString y = (if 0 \<le> y \<and> y \<le> 9999 then padDigits 4 y
                   else (if y < 0 then ''-'' else ''+'') @ padDigits 6 \<bar>y\<bar>)"

text \<open>\<^verbatim>\<open>Date.prototype.toISOString\<close> on a valid time value.\<close>

definition toISOString :: "int \<Rightarrow> string" where
  "toISOString t =
     (let ms = t mod 86400000 in
      case civilFromDays (t div 86400000) of (y, m, d) \<Rightarrow>
        yearString y @ ''-'' @ padDigits 2 m @ ''-'' @ padDigits 2 d @ ''T''
        @ padDigits 2 (ms div 3600000) @ '':''
        @ padDigits 2 (ms div 60000 mod 60) @ '':''
        @ padDigits 2 (ms div 1000 mod 60) @ ''.''
        @ padDigits 3 (ms mod 1000) @ ''Z'')"

text \<open>\<^verbatim>\<open>date.toISOString().slice(0, 10)\<close>; \<^verbatim>\<open>toISOString\<close> throws on an invalid date.\<close>

definition isoDay :: "int option \<Rightarrow> js_error + string" where
  "isoDay date = (case date of None \<Rightarrow> Inl RangeError | Some t \<Rightarrow> Inr (take 10 (toISOString t)))"

text \<open>The shape \<^verbatim>\<open>YYYY-MM-DD\<close>: ten characters, digits around two hyphens.\<close>

definition isDigit :: "char \<Rightarrow> bool" where
  "isDigit c = (c \<in> set ''0123456789'')"

definition isYMD :: "string \<Rightarrow> bool" where
  "isYMD s = (length s = 10 \<and> list_all (\<lambda>i. isDigit (s ! i)) [0, 1, 2, 3, 5, 6, 8, 9]
              \<and> s ! 4 = CHR ''-'' \<and> s ! 7 = CHR ''-'')"

text \<open>The rendering \<^verbatim>\<open>YYYY-MM-DD\<close> of a date (year, month, day).\<close>

definition ymdString :: "int \<times> int \<times> int \<Rightarrow> string" where
  "ymdString date = (case date of (y, m, d) \<Rightarrow>
     padDigits 4 y @ ''-'' @ padDigits 2 m @ ''-'' @ padDigits 2 d)"

section \<open>The sales record\<close>

record SalesRecord =
  Date :: string
  Category :: string
  Product :: string
  Quantity :: real
  Amount :: real
  Cost :: "jsnum option"
  Brand :: string
  isGift :: "bool option"

text \<open>
  \<open>Cost\<close> is \<open>None\<close> for \<^verbatim>\<open>undefined\<close>; \<open>isGift\<close> is \<open>None\<close> where the variant of
  the normaliser does not set the field.
\<close>

section \<open>The record normaliser\<close>

text \<open>A raw row is an object; the list holds its entries in the order of \<^verbatim>\<open>Object.keys\<close>.\<close>

type_synonym raw_row = "(string \<times> jsval) list"

definition brandTable :: "(string list \<times> string) list" where
  "brandTable =
  [([''panasonic'', [CHR 0xE5, CHR 0x9C, CHR 0x8B, CHR 0xE9, CHR 0x9A, CHR 0x9B]], (''Panasonic '' @ [CHR 0xE5, CHR 0x9C, CHR 0x8B, CHR 0xE9, CHR 0x9A, CHR 0x9B])),
   ([''lg''], (''LG '' @ [CHR 0xE6, CHR 0xA8, CHR 0x82, CHR 0xE9, CHR 0x87, CHR 0x91])),
   ([''samsung'', [CHR 0xE4, CHR 0xB8, CHR 0x89, CHR 0xE6, CHR 0x98, CHR 0x9F]], (''Samsung '' @ [CHR 0xE4, CHR 0xB8, CHR 0x89, CHR 0xE6, CHR 0x98, CHR 0x9F])),
   ([''sony'', [CHR 0xE7, CHR 0xB4, CHR 0xA2, CHR 0xE5, CHR 0xB0, CHR 0xBC]], ''Sony''),
   ([''hitachi'', [CHR 0xE6, CHR 0x97, CHR 0xA5, CHR 0xE7, CHR 0xAB, CHR 0x8B]], (''Hitachi '' @ [CHR 0xE6, CHR 0x97, CHR 0xA5, CHR 0xE7, CHR 0xAB, CHR 0x8B])),
   ([''toshiba'', [CHR 0xE6, CHR 0x9D, CHR 0xB1, CHR 0xE8, CHR 0x8A, CHR 0x9D]], (''Toshiba '' @ [CHR 0xE6, CHR 0x9D, CHR 0xB1, CHR 0xE8, CHR 0x8A, CHR 0x9D])),
   ([''sharp'', [CHR 0xE5, CHR 0xA4, CHR 0x8F, CHR 0xE6, CHR 0x99, CHR 0xAE]], (''Sharp '' @ [CHR 0xE5, CHR 0xA4, CHR 0x8F, CHR 0xE6, CHR 0x99, CHR 0xAE])),
   ([''teco'', [CHR 0xE6, CHR 0x9D, CHR 0xB1, CHR 0xE5, CHR 0x85, CHR 0x83]], (''TECO '' @ [CHR 0xE6, CHR 0x9D, CHR 0xB1, CHR 0xE5, CHR 0x85, CHR 0x83])),
   ([''sampo'', [CHR 0xE8, CHR 0x81, CHR 0xB2, CHR 0xE5, CHR 0xAF, CHR 0xB6]], (''SAMPO '' @ [CHR 0xE8, CHR 0x81, CHR 0xB2, CHR 0xE5, CHR 0xAF, CHR 0xB6])),
   ([''heran'', [CHR 0xE7, CHR 0xA6, CHR 0xBE, CHR 0xE8, CHR 0x81, CHR 0xAF]], (''HERAN '' @ [CHR 0xE7, CHR 0xA6, CHR 0xBE, CHR 0xE8, CHR 0x81, CHR 0xAF])),
   ([''sanlux'', [CHR 0xE4, CHR 0xB8, CHR 0x89, CHR 0xE6, CHR 0xB4, CHR 0x8B]], (''Sanlux '' @ [CHR 0xE4, CHR 0xB8, CHR 0x89, CHR 0xE6, CHR 0xB4, CHR 0x8B])),
   ([''sakura'', [CHR 0xE6, CHR 0xAB, CHR 0xBB, CHR 0xE8, CHR 0x8A, CHR 0xB1]], (''Sakura '' @ [CHR 0xE6, CHR 0xAB, CHR 0xBB, CHR 0xE8, CHR 0x8A, CHR 0xB1])),
   ([''dyson''], ''Dyson''),
   ([''philips'', [CHR 0xE9, CHR 0xA3, CHR 0x9B, CHR 0xE5, CHR 0x88, CHR 0xA9, CHR 0xE6, CHR 0xB5, CHR 0xA6]], ''Philips''),
   ([''tatung'', [CHR 0xE5, CHR 0xA4, CHR 0xA7, CHR 0xE5, CHR 0x90, CHR 0x8C]], (''Tatung '' @ [CHR 0xE5, CHR 0xA4, CHR 0xA7, CHR 0xE5, CHR 0x90, CHR 0x8C])),
   ([''whirlpool'', [CHR 0xE6, CHR 0x83, CHR 0xA0, CHR 0xE8, CHR 0x80, CHR 0x8C, CHR 0xE6, CHR 0xB5, CHR 0xA6]], ''Whirlpool''),
   ([''daikin'', [CHR 0xE5, CHR 0xA4, CHR 0xA7, CHR 0xE9, CHR 0x87, CHR 0x91]], (''Daikin '' @ [CHR 0xE5, CHR 0xA4, CHR 0xA7, CHR 0xE9, CHR 0x87, CHR 0x91]))]"

definition otherBrand :: string where
  "otherBrand = ''Other '' @ [CHR 0xE5, CHR 0x85, CHR 0xB6, CHR 0xE4, CHR 0xBB, CHR 0x96]"

text \<open>The chain of \<^verbatim>\<open>if (...) return\<close> of \<^verbatim>\<open>detectBrand\<close>, one table row per statement.\<close>

definition detectBrand :: "js_builtins \<Rightarrow> string \<Rightarrow> string" where
  "detectBrand js productName =
     (let normalized = toLowerCase js productName in
      case find (\<lambda>(keywords, label). \<exists>k \<in> set keywords. includesStr normalized k) brandTable of
        Some (keywords, label) \<Rightarrow> label
      | None \<Rightarrow> otherBrand)"

definition giftKeywords :: "string list" where
  "giftKeywords =
     [[CHR 0xE8, CHR 0xB4, CHR 0x88], [CHR 0xE8, CHR 0xB4, CHR 0x88, CHR 0xE5, CHR 0x93, CHR 0x81],
      [CHR 0xE7, CHR 0xA6, CHR 0xAE], [CHR 0xE9, CHR 0x99, CHR 0x84, CHR 0xE8, CHR 0xB4, CHR 0x88],
      [CHR 0xE5, CHR 0x8A, CHR 0xA0, CHR 0xE8, CHR 0xB4, CHR 0x88], [CHR 0xE9, CHR 0x80, CHR 0x81],
      [CHR 0xE5, CHR 0x85, CHR 0x8D, CHR 0xE8, CHR 0xB2, CHR 0xBB]]"

definition detectGift :: "js_builtins \<Rightarrow> string \<Rightarrow> real \<Rightarrow> bool" where
  "detectGift js productName amount =
     (if amount = 0 then True
      else (let normalized = toLowerCase js productName in
            \<exists>keyword \<in> set giftKeywords. includesStr normalized keyword))"

definition datePatterns :: "string list" where
  "datePatterns = [''date'', [CHR 0xE6, CHR 0x97, CHR 0xA5, CHR 0xE6, CHR 0x9C, CHR 0x9F],
     [CHR 0xE6, CHR 0x99, CHR 0x82, CHR 0xE9, CHR 0x96, CHR 0x93], ''month'', ''day'']"

definition categoryPatterns :: "string list" where
  "categoryPatterns = [''category'', ''cat'', [CHR 0xE9, CHR 0xA1, CHR 0x9E, CHR 0xE5, CHR 0x88, CHR 0xA5],
     [CHR 0xE5, CHR 0x93, CHR 0x81, CHR 0xE9, CHR 0xA1, CHR 0x9E], [CHR 0xE9, CHR 0x83, CHR 0xA8, CHR 0xE9, CHR 0x96, CHR 0x80],
     [CHR 0xE9, CHR 0xA1, CHR 0x9E, CHR 0xE5, CHR 0x9E, CHR 0x8B]]"

definition productPatterns :: "string list" where
  "productPatterns = [''product'', ''name'', ''model'', [CHR 0xE5, CHR 0x95, CHR 0x86, CHR 0xE5, CHR 0x93, CHR 0x81],
     [CHR 0xE5, CHR 0x9E, CHR 0x8B, CHR 0xE8, CHR 0x99, CHR 0x9F], [CHR 0xE5, CHR 0x90, CHR 0x8D, CHR 0xE7, CHR 0xA8, CHR 0xB1],
     [CHR 0xE5, CHR 0x93, CHR 0x81, CHR 0xE5, CHR 0x90, CHR 0x8D]]"

definition quantityPatterns :: "string list" where
  "quantityPatterns = [''qty'', ''quantity'', ''count'', [CHR 0xE6, CHR 0x95, CHR 0xB8, CHR 0xE9, CHR 0x87, CHR 0x8F],
     [CHR 0xE9, CHR 0x8A, CHR 0xB7, CHR 0xE9, CHR 0x87, CHR 0x8F], ''sales_qty'']"

definition amountPatterns :: "string list" where
  "amountPatterns = [''amount'', ''price'', ''revenue'', [CHR 0xE9, CHR 0x87, CHR 0x91, CHR 0xE9, CHR 0xA1, CHR 0x8D],
     [CHR 0xE5, CHR 0x94, CHR 0xAE, CHR 0xE5, CHR 0x83, CHR 0xB9], [CHR 0xE7, CHR 0xB8, CHR 0xBD, CHR 0xE5, CHR 0x83, CHR 0xB9],
     ''sales_amt'', [CHR 0xE7, CHR 0x87, CHR 0x9F, CHR 0xE6, CHR 0xA5, CHR 0xAD, CHR 0xE9, CHR 0xA1, CHR 0x8D]]"

definition costPatterns :: "string list" where
  "costPatterns = [''cost'', [CHR 0xE6, CHR 0x88, CHR 0x90, CHR 0xE6, CHR 0x9C, CHR 0xAC],
     [CHR 0xE9, CHR 0x80, CHR 0xB2, CHR 0xE5, CHR 0x83, CHR 0xB9]]"

definition unknownProduct :: string where
  "unknownProduct = [CHR 0xE6, CHR 0x9C, CHR 0xAA, CHR 0xE7, CHR 0x9F, CHR 0xA5, CHR 0xE5, CHR 0x95, CHR 0x86, CHR 0xE5, CHR 0x93, CHR 0x81]"

definition uncategorized :: string where
  "uncategorized = [CHR 0xE6, CHR 0x9C, CHR 0xAA, CHR 0xE5, CHR 0x88, CHR 0x86, CHR 0xE9, CHR 0xA1, CHR 0x9E]"

text \<open>
  \<^verbatim>\<open>getVal\<close>: the value under the first key whose lower-cased name contains one of the
  lower-cased patterns; \<^verbatim>\<open>null\<close> when there is none (or the key is the empty string,
  which is falsy).
\<close>

definition getVal :: "js_builtins \<Rightarrow> raw_row \<Rightarrow> string list \<Rightarrow> jsval" where
  "getVal js row patterns =
     (case find (\<lambda>k. \<exists>p \<in> set patterns. includesStr (toLowerCase js k) (toLowerCase js p)) (map fst row) of
        None \<Rightarrow> JNull
      | Some key \<Rightarrow> if key = [] then JNull
                    else (case map_of row key of None \<Rightarrow> JUndefined | Some v \<Rightarrow> v))"

text \<open>\<^verbatim>\<open>a || b\<close> on values.\<close>

definition orElse :: "jsval \<Rightarrow> jsval \<Rightarrow> jsval" where
  "orElse a b = (if truthy a then a else b)"

text \<open>
  The block \<^verbatim>\<open>// Date normalization\<close>. A numeric value is an Excel serial date;
  \<^verbatim>\<open>toISOString\<close> throws a \<^verbatim>\<open>RangeError\<close> when the serial is out of the range of
  \<^verbatim>\<open>Date\<close>.
\<close>

definition normalizeDate :: "js_builtins \<Rightarrow> jsval \<Rightarrow> js_error + string" where
  "normalizeDate js dateVal =
     (if truthy dateVal then
        (case dateVal of
           JNum v \<Rightarrow> isoDay (newDate js (JNum ((v - (25567 + 2)) * 86400 * 1000)))
         | _ \<Rightarrow> (let d = newDate js dateVal in
                 if d \<noteq> None then isoDay d else Inr (toString js dateVal)))
      else Inr ''Unknown'')"

text \<open>The callback of \<^verbatim>\<open>rawData.map\<close> in \<^verbatim>\<open>src/utils/dataProcessor.ts\<close>.\<close>

definition normalizeRow :: "js_builtins \<Rightarrow> raw_row \<Rightarrow> js_error + SalesRecord" where
  "normalizeRow js row =
     (let dateVal = getVal js row datePatterns;
          catVal = getVal js row categoryPatterns;
          prodVal = getVal js row productPatterns;
          qtyVal = getVal js row quantityPatterns;
          amtVal = getVal js row amountPatterns;
          costVal = getVal js row costPatterns;
          qty = orZero (toNumber js qtyVal);
          amount = orZero (toNumber js amtVal);
          productName = toString js (orElse prodVal (JStr unknownProduct))
      in case normalizeDate js dateVal of
           Inl e \<Rightarrow> Inl e
         | Inr dateStr \<Rightarrow> Inr
            \<lparr> Date = dateStr,
              Category = toString js (orElse catVal (JStr uncategorized)),
              Product = productName,
              Quantity = qty,
              Amount = amount,
              Cost = (if truthy costVal then Some (toNumber js costVal) else None),
              Brand = detectBrand js productName,
              isGift = Some (detectGift js productName amount) \<rparr>)"

text \<open>\<^verbatim>\<open>Array.prototype.map\<close> with a callback that may throw: the first exception ends the call.\<close>

fun mapM :: "('a \<Rightarrow> js_error + 'b) \<Rightarrow> 'a list \<Rightarrow> js_error + 'b list" where
  "mapM f [] = Inr []"
| "mapM f (x # xs) =
     (case f x of
        Inl e \<Rightarrow> Inl e
      | Inr y \<Rightarrow> (case mapM f xs of Inl e \<Rightarrow> Inl e | Inr ys \<Rightarrow> Inr (y # ys)))"

definition positiveSale :: "SalesRecord \<Rightarrow> bool" where
  "positiveSale r = (Quantity r > 0 \<or> Amount r > 0)"

definition normalizeData :: "js_builtins \<Rightarrow> raw_row list \<Rightarrow> js_error + SalesRecord list" where
  "normalizeData js rawData =
     (case mapM (normalizeRow js) rawData of
        Inl e \<Rightarrow> Inl e
      | Inr rs \<Rightarrow> Inr (filter positiveSale rs))"

subsection \<open>The deduplicating variant (\<^verbatim>\<open>src/unnamed/part_002\<close>)\<close>

text \<open>The record the callback builds before it looks at the set of seen keys.\<close>

definition normalizeRowDedup :: "js_builtins \<Rightarrow> raw_row \<Rightarrow> js_error + SalesRecord" where
  "normalizeRowDedup js row =
     (let dateVal = getVal js row datePatterns;
          catVal = getVal js row categoryPatterns;
          prodVal = getVal js row productPatterns;
          qtyVal = getVal js row quantityPatterns;
          amtVal = getVal js row amountPatterns;
          costVal = getVal js row costPatterns;
          qty = orZero (toNumber js qtyVal);
          amount = orZero (toNumber js amtVal);
          productName = toString js (orElse prodVal (JStr unknownProduct))
      in case normalizeDate js dateVal of
           Inl e \<Rightarrow> Inl e
         | Inr dateStr \<Rightarrow> Inr
            \<lparr> Date = dateStr,
              Category = toString js (orElse catVal (JStr uncategorized)),
              Product = productName,
              Quantity = qty,
              Amount = amount,
              Cost = (if truthy costVal then Some (toNumber js costVal) else None),
              Brand = detectBrand js productName,
              isGift = None \<rparr>)"

text \<open>The template literal \<^verbatim>\<open>`${dateStr}|${productName}|${qty}|${amount}`\<close>.\<close>

definition rowKey :: "js_builtins \<Rightarrow> SalesRecord \<Rightarrow> string" where
  "rowKey js r = Date r @ ''|'' @ Product r @ ''|'' @ numberToString js (Quantity r)
                 @ ''|'' @ numberToString js (Amount r)"

text \<open>
  The \<^verbatim>\<open>map\<close> of the variant, with the set \<^verbatim>\<open>seenRows\<close> passed along: a row whose key
  was seen gives \<^verbatim>\<open>null\<close> (\<open>None\<close>), any other row adds its key and gives its record.
\<close>

fun dedupMap :: "js_builtins \<Rightarrow> string list \<Rightarrow> raw_row list \<Rightarrow> js_error + SalesRecord option list" where
  "dedupMap js seenRows [] = Inr []"
| "dedupMap js seenRows (row # rows) =
     (case normalizeRowDedup js row of
        Inl e \<Rightarrow> Inl e
      | Inr r \<Rightarrow>
          if rowKey js r \<in> set seenRows
          then (case dedupMap js seenRows rows of Inl e \<Rightarrow> Inl e | Inr out \<Rightarrow> Inr (None # out))
          else (case dedupMap js (rowKey js r # seenRows) rows of
                  Inl e \<Rightarrow> Inl e | Inr out \<Rightarrow> Inr (Some r # out)))"

definition keepSale :: "SalesRecord option \<Rightarrow> bool" where
  "keepSale r = (case r of None \<Rightarrow> False | Some s \<Rightarrow> Quantity s > 0 \<or> Amount s > 0)"

definition normalizeDataDedup :: "js_builtins \<Rightarrow> raw_row list \<Rightarrow> js_error + SalesRecord list" where
  "normalizeDataDedup js rawData =
     (case dedupMap js [] rawData of
        Inl e \<Rightarrow> Inl e
      | Inr out \<Rightarrow> Inr (map the (filter keepSale out)))"

text \<open>
  The same marking on the records of the rows, for a batch on which no row throws: a record
  is kept (\<open>Some\<close>) when its key string was not seen before.
\<close>

fun markFirst :: "js_builtins \<Rightarrow> string list \<Rightarrow> SalesRecord list \<Rightarrow> SalesRecord option list" where
  "markFirst js seenRows [] = []"
| "markFirst js seenRows (r # rs) =
     (if rowKey js r \<in> set seenRows then None # markFirst js seenRows rs
      else Some r # markFirst js (rowKey js r # seenRows) rs)"

text \<open>The composite key of the specification: date, product name, quantity, amount.\<close>

definition compositeKey :: "SalesRecord \<Rightarrow> string \<times> string \<times> real \<times> real" where
  "compositeKey r = (Date r, Product r, Quantity r, Amount r)"

subsection \<open>A sample host\<close>

text \<open>
  A concrete \<open>js_builtins\<close> on which the definitions can be evaluated: lower-casing of
  ASCII letters, \<^verbatim>\<open>Date.parse\<close> on the date-only ISO form \<^verbatim>\<open>YYYY-MM-DD\<close> (UTC
  midnight of that day) and on two strings in the format of \<^verbatim>\<open>toUTCString\<close>, the conversions between numbers and
  strings on unsigned decimal integers, comparison by character codes. Every other string
  is not a date and not a number.
\<close>

definition lowerChar :: "char \<Rightarrow> char" where
  "lowerChar c = (if CHR ''A'' \<le> c \<and> c \<le> CHR ''Z'' then char_of (of_char c + (32::int)) else c)"

definition digitValue :: "char \<Rightarrow> int" where
  "digitValue c = of_char c - 48"

definition decimalValue :: "string \<Rightarrow> int" where
  "decimalValue s = foldl (\<lambda>n c. 10 * n + digitValue c) 0 s"

definition parseYMD :: "string \<Rightarrow> int option" where
  "parseYMD s =
     (if isYMD s then
        (let y = decimalValue (take 4 s);
             m = decimalValue (take 2 (drop 5 s));
             d = decimalValue (take 2 (drop 8 s))
         in if 1 \<le> m \<and> m \<le> 12 \<and> 1 \<le> d \<and> civilFromDays (daysFromCivil y m d) = (y, m, d)
            then Some (daysFromCivil y m d * 86400000) else None)
      else None)"

definition sampleDateParse :: "string \<Rightarrow> int option" where
  "sampleDateParse s =
     (if s = ''Wed, 01 Jan 2025 00:00:00 GMT'' then Some 1735689600000
      else if s = ''Wed, 05 Feb 2025 00:00:00 GMT'' then Some 1738713600000
      else parseYMD s)"

fun decimalString :: "nat \<Rightarrow> int \<Rightarrow> string" where
  "decimalString 0 n = []"
| "decimalString (Suc fuel) n =
     (if n < 10 then [digitChar n] else decimalString fuel (n div 10) @ [digitChar n])"

definition sampleNumberToString :: "real \<Rightarrow> string" where
  "sampleNumberToString x =
     (if 0 \<le> x \<and> x = of_int \<lfloor>x\<rfloor> then decimalString 40 \<lfloor>x\<rfloor> else ''?'')"

definition sampleStringToNumber :: "string \<Rightarrow> jsnum" where
  "sampleStringToNumber s =
     (if s = [] then Finite 0
      else if \<forall>c \<in> set s. isDigit c then Finite (of_int (decimalValue s)) else NaN)"

definition sampleHost :: js_builtins where
  "sampleHost = \<lparr> toLowerCase = map lowerChar,
                   stringToNumber = sampleStringToNumber,
                   numberToString = sampleNumberToString,
                   dateParse = sampleDateParse,
                   localeCompare = (\<lambda>a b. if a < b then - 1 else if a = b then 0 else 1) \<rparr>"

section \<open>Maps, sorting and rounding\<close>

text \<open>
  The idiom \<^verbatim>\<open>if (!m.has(k)) m.set(k, init); const item = m.get(k)!; item.f += ...\<close>:
  a missing key is appended with its initial value, then the entry under the key is changed
  in place.
\<close>

definition mapHas :: "('k \<times> 'v) list \<Rightarrow> 'k \<Rightarrow> bool" where
  "mapHas m k = (k \<in> set (map fst m))"

fun mapUpdate :: "'k \<Rightarrow> ('v \<Rightarrow> 'v) \<Rightarrow> ('k \<times> 'v) list \<Rightarrow> ('k \<times> 'v) list" where
  "mapUpdate k f [] = []"
| "mapUpdate k f ((k', v) # m) =
     (if k' = k then (k', f v) # m else (k', v) # mapUpdate k f m)"

definition upsert :: "'k \<Rightarrow> 'v \<Rightarrow> ('v \<Rightarrow> 'v) \<Rightarrow> ('k \<times> 'v) list \<Rightarrow> ('k \<times> 'v) list" where
  "upsert k init f m = mapUpdate k f (if mapHas m k then m else m @ [(k, init)])"

text \<open>\<^verbatim>\<open>data.forEach\<close> over that idiom, from the empty map.\<close>

definition forEachGroup ::
  "('r \<Rightarrow> 'k) \<Rightarrow> ('r \<Rightarrow> 'v) \<Rightarrow> ('r \<Rightarrow> 'v \<Rightarrow> 'v) \<Rightarrow> 'r list \<Rightarrow> ('k \<times> 'v) list" where
  "forEachGroup key init step data =
     foldl (\<lambda>m row. upsert (key row) (init row) (step row) m) [] data"

text \<open>The value under a key: the fold of the steps over the rows of that key, in order,
  from the initial value of the first of them.\<close>

definition groupValue :: "('r \<Rightarrow> 'v) \<Rightarrow> ('r \<Rightarrow> 'v \<Rightarrow> 'v) \<Rightarrow> 'r list \<Rightarrow> 'v option" where
  "groupValue init step rows =
     (case rows of [] \<Rightarrow> None | r # _ \<Rightarrow> Some (foldl (\<lambda>v row. step row v) (init r) rows))"

text \<open>
  \<^verbatim>\<open>Array.prototype.sort(cmp)\<close>: stable; \<open>x\<close> stays in front of \<open>y\<close> when
  \<open>cmp x y \<le> 0\<close>.
\<close>

fun insertBy :: "('a \<Rightarrow> 'a \<Rightarrow> real) \<Rightarrow> 'a \<Rightarrow> 'a list \<Rightarrow> 'a list" where
  "insertBy cmp x [] = [x]"
| "insertBy cmp x (y # ys) = (if cmp x y \<le> 0 then x # y # ys else y # insertBy cmp x ys)"

definition sortBy :: "('a \<Rightarrow> 'a \<Rightarrow> real) \<Rightarrow> 'a list \<Rightarrow> 'a list" where
  "sortBy cmp xs = foldr (insertBy cmp) xs []"

text \<open>\<^verbatim>\<open>Math.round\<close> (halves go up), \<^verbatim>\<open>Math.ceil\<close>, \<^verbatim>\<open>Math.sqrt\<close>.\<close>

definition mathRound :: "real \<Rightarrow> real" where
  "mathRound x = of_int \<lfloor>x + 1 / 2\<rfloor>"

definition mathCeil :: "real \<Rightarrow> real" where
  "mathCeil x = of_int \<lceil>x\<rceil>"

definition mathSqrt :: "real \<Rightarrow> jsnum" where
  "mathSqrt x = (if x < 0 then NaN else Finite (sqrt x))"

text \<open>A function of numbers on a value that may be NaN: NaN stays NaN.\<close>

fun mapNum :: "(real \<Rightarrow> real) \<Rightarrow> jsnum \<Rightarrow> jsnum" where
  "mapNum f NaN = NaN"
| "mapNum f (Finite x) = Finite (f x)"

fun mapNum2 :: "(real \<Rightarrow> real \<Rightarrow> real) \<Rightarrow> jsnum \<Rightarrow> jsnum \<Rightarrow> jsnum" where
  "mapNum2 f (Finite x) (Finite y) = Finite (f x y)"
| "mapNum2 f _ _ = NaN"

text \<open>
  The arithmetic of the host on numbers: \<^verbatim>\<open>a + b\<close>, \<^verbatim>\<open>a - b\<close>, \<^verbatim>\<open>a * b\<close>, \<^verbatim>\<open>a / b\<close>,
  \<^verbatim>\<open>Math.pow(a, n)\<close> for a natural number \<open>n\<close>, \<^verbatim>\<open>Math.sqrt(a)\<close>, and the number that
  a decimal literal of the source text denotes (\<open>fconst\<close>). A host with IEEE doubles
  rounds each of these to the nearest double; nothing is assumed about the fields.
\<close>

record js_arith =
  fadd :: "real \<Rightarrow> real \<Rightarrow> real"
  fsub :: "real \<Rightarrow> real \<Rightarrow> real"
  fmul :: "real \<Rightarrow> real \<Rightarrow> real"
  fdiv :: "real \<Rightarrow> real \<Rightarrow> real"
  fpow :: "real \<Rightarrow> nat \<Rightarrow> real"
  fsqrt :: "real \<Rightarrow> jsnum"
  fconst :: "real \<Rightarrow> real"

text \<open>The arithmetic without rounding error, the host of the worked examples.\<close>

definition exactArith :: js_arith where
  "exactArith = \<lparr> fadd = (\<lambda>a b. a + b), fsub = (\<lambda>a b. a - b), fmul = (\<lambda>a b. a * b),
                   fdiv = (\<lambda>a b. a / b), fpow = (\<lambda>a n. a ^ n), fsqrt = mathSqrt,
                   fconst = (\<lambda>a. a) \<rparr>"

text \<open>
  The difference computed by the host has the sign of the exact difference on the numbers
  of a set. IEEE subtraction has this property on all finite doubles: the difference of two
  different doubles is never rounded to zero.
\<close>

definition signFaithful :: "js_arith \<Rightarrow> real set \<Rightarrow> bool" where
  "signFaithful ar S = (\<forall>x \<in> S. \<forall>y \<in> S. (fsub ar x y \<le> 0) = (x \<le> y))"

text \<open>The elements of a list in the order of their first occurrence, as a \<^verbatim>\<open>Set\<close> keeps them.\<close>

fun uniqueFirst :: "'a list \<Rightarrow> 'a list" where
  "uniqueFirst [] = []"
| "uniqueFirst (x # xs) = x # filter (\<lambda>y. y \<noteq> x) (uniqueFirst xs)"

section \<open>The aggregation functions\<close>

datatype ABCClass = A | B | C

datatype Level = HIGH | MEDIUM | LOW

datatype Trend = UP | DOWN | STABLE

record ProductRow =
  productName :: string
  category :: string

record Revenue =
  revenue :: real

record SalesVolume = Revenue +
  salesCount :: real

subsection \<open>\<^verbatim>\<open>analyzePerformance\<close>\<close>

record ProductPerformance = ProductRow +
  totalQty :: real
  totalAmount :: real
  averagePrice :: real
  qtyShare :: real
  amountShare :: real
  cumulativeShare :: real
  abcClass :: ABCClass
  salesFrequency :: real
  velocityScore :: real

definition newPerformance :: "SalesRecord \<Rightarrow> ProductPerformance" where
  "newPerformance row =
     \<lparr> productName = Product row, category = Category row,
       totalQty = 0, totalAmount = 0, averagePrice = 0, qtyShare = 0, amountShare = 0,
       cumulativeShare = 0, abcClass = C, salesFrequency = 0, velocityScore = 0 \<rparr>"

definition addSale :: "SalesRecord \<Rightarrow> ProductPerformance \<Rightarrow> ProductPerformance" where
  "addSale row item =
     item\<lparr> totalQty := totalQty item + Quantity row,
           totalAmount := totalAmount item + Amount row,
           salesFrequency := salesFrequency item + 1 \<rparr>"

text \<open>Step 1, the aggregation: the map \<^verbatim>\<open>grouped\<close> and the sum \<^verbatim>\<open>totalSystemAmount\<close>.\<close>

definition groupedPerformance :: "SalesRecord list \<Rightarrow> (string \<times> ProductPerformance) list" where
  "groupedPerformance data = forEachGroup Product newPerformance addSale data"

definition totalSystemAmount :: "SalesRecord list \<Rightarrow> real" where
  "totalSystemAmount data = foldl (\<lambda>acc row. acc + Amount row) 0 data"

text \<open>Step 2, the metrics of one product.\<close>

definition withMetrics :: "real \<Rightarrow> ProductPerformance \<Rightarrow> ProductPerformance" where
  "withMetrics systemTotal item =
     item\<lparr> amountShare := (if systemTotal > 0 then totalAmount item / systemTotal * 100 else 0),
           averagePrice := (if totalQty item > 0
                            then mathRound (totalAmount item / totalQty item) else 0),
           velocityScore := min 100 (totalQty item * 1.5 + salesFrequency item * 0.5) \<rparr>"

text \<open>Step 4, the walk that accumulates the share and assigns the class.\<close>

fun assignABC :: "real \<Rightarrow> ProductPerformance list \<Rightarrow> ProductPerformance list" where
  "assignABC currentCumulative [] = []"
| "assignABC currentCumulative (item # items) =
     (let cumulative = currentCumulative + amountShare item in
      item\<lparr> cumulativeShare := cumulative,
            abcClass := (if cumulative \<le> 80 then A else if cumulative \<le> 95 then B else C) \<rparr>
      # assignABC cumulative items)"

definition analyzePerformance :: "SalesRecord list \<Rightarrow> ProductPerformance list" where
  "analyzePerformance data =
     (let result = map (withMetrics (totalSystemAmount data)) (map snd (groupedPerformance data));
          sorted = sortBy (\<lambda>a b. totalAmount b - totalAmount a) result
      in assignABC 0 sorted)"

subsection \<open>\<^verbatim>\<open>analyzeSeasonality\<close>\<close>

record SeasonalityData = Revenue +
  month :: string
  sales :: real
  topCategory :: string

definition monthOf :: "SalesRecord \<Rightarrow> string" where
  "monthOf row = (if length (Date row) \<ge> 7 then take 7 (Date row) else Date row)"

text \<open>
  An entry of the map is \<open>(qtySum, revSum, categories)\<close> for the fields
  \<^verbatim>\<open>totalQty\<close>, \<^verbatim>\<open>totalRev\<close>, \<^verbatim>\<open>categories\<close>; the object
  \<^verbatim>\<open>categories\<close> is the association list of its properties (for names that are not
  array indices, in insertion order).
\<close>

definition addToMonth ::
  "SalesRecord \<Rightarrow> real \<times> real \<times> (string \<times> real) list \<Rightarrow> real \<times> real \<times> (string \<times> real) list" where
  "addToMonth row entry =
     (case entry of (qtySum, revSum, categories) \<Rightarrow>
        (qtySum + Quantity row, revSum + Amount row,
         upsert (Category row) 0 (\<lambda>q. q + Quantity row) categories))"

definition seasonalityRow ::
  "string \<times> real \<times> real \<times> (string \<times> real) list \<Rightarrow> SeasonalityData" where
  "seasonalityRow e =
     (case e of (m, qtySum, revSum, categories) \<Rightarrow>
        \<lparr> revenue = revSum, month = m, sales = qtySum,
          topCategory = (case sortBy (\<lambda>a b. snd b - snd a) categories of
                           [] \<Rightarrow> ''None'' | topCat # _ \<Rightarrow> fst topCat) \<rparr>)"

definition analyzeSeasonality :: "js_builtins \<Rightarrow> SalesRecord list \<Rightarrow> SeasonalityData list" where
  "analyzeSeasonality js data =
     sortBy (\<lambda>a b. localeCompare js (month a) (month b))
       (map seasonalityRow (forEachGroup monthOf (\<lambda>row. (0, 0, [])) addToMonth data))"

subsection \<open>\<^verbatim>\<open>analyzePriceBands\<close>\<close>

record PriceBandMetric = SalesVolume +
  bandRange :: string
  percent :: real

definition bandOrder :: "string list" where
  "bandOrder =
     [[CHR 0xE5, CHR 0xB9, CHR 0xB3, CHR 0xE5, CHR 0x83, CHR 0xB9] @ '' (<3k)'',
      [CHR 0xE5, CHR 0x85, CHR 0xA5, CHR 0xE9, CHR 0x96, CHR 0x80] @ '' (3k-10k)'',
      [CHR 0xE4, CHR 0xB8, CHR 0xAD, CHR 0xE9, CHR 0x9A, CHR 0x8E] @ '' (10k-25k)'',
      [CHR 0xE9, CHR 0xAB, CHR 0x98, CHR 0xE9, CHR 0x9A, CHR 0x8E] @ '' (25k-40k)'',
      [CHR 0xE6, CHR 0x97, CHR 0x97, CHR 0xE8, CHR 0x89, CHR 0xA6] @ '' (>40k)'']"

definition priceBand :: "SalesRecord \<Rightarrow> string" where
  "priceBand row =
     (let price = (if Quantity row > 0 then Amount row / Quantity row else 0) in
      if price < 3000 then bandOrder ! 0
      else if price < 10000 then bandOrder ! 1
      else if price < 25000 then bandOrder ! 2
      else if price < 40000 then bandOrder ! 3
      else bandOrder ! 4)"

text \<open>\<^verbatim>\<open>Array.prototype.indexOf\<close>: the first position of the element, or \<open>-1\<close>.\<close>

fun indexOf :: "'a list \<Rightarrow> 'a \<Rightarrow> real" where
  "indexOf [] x = - 1"
| "indexOf (y # ys) x = (if y = x then 0 else (let i = indexOf ys x in if i < 0 then - 1 else i + 1))"

definition analyzePriceBands :: "SalesRecord list \<Rightarrow> PriceBandMetric list" where
  "analyzePriceBands data =
     (let bands = forEachGroup priceBand (\<lambda>row. (0, 0))
                    (\<lambda>row (count, revSum). (count + Quantity row, revSum + Amount row)) data;
          totalRev = foldl (\<lambda>acc row. acc + Amount row) 0 data
      in sortBy (\<lambda>a b. indexOf bandOrder (bandRange a) - indexOf bandOrder (bandRange b))
           (map (\<lambda>(label, count, revSum).
                   \<lparr> revenue = revSum, salesCount = count, bandRange = label,
                     percent = (if totalRev > 0 then revSum / totalRev * 100 else 0) \<rparr>) bands))"

subsection \<open>\<^verbatim>\<open>analyzeBrands\<close>\<close>

record BrandMetric = SalesVolume +
  brand :: string
  percentage :: real

definition analyzeBrands :: "SalesRecord list \<Rightarrow> BrandMetric list" where
  "analyzeBrands data =
     (let brandMap = forEachGroup Brand (\<lambda>row. (0, 0))
                       (\<lambda>row (revSum, count). (revSum + Amount row, count + Quantity row)) data;
          totalRev = foldl (\<lambda>acc row. acc + Amount row) 0 data
      in sortBy (\<lambda>a b. revenue b - revenue a)
           (map (\<lambda>(b, revSum, count).
                   \<lparr> revenue = revSum, salesCount = count, brand = b,
                     percentage = (if totalRev > 0 then revSum / totalRev * 100 else 0) \<rparr>) brandMap))"

subsection \<open>\<^verbatim>\<open>calculateInventoryMetrics\<close>\<close>

record InventoryMetrics = ProductRow +
  avgDailySales :: real
  salesVariance :: jsnum
  suggestedOrderQty :: real
  safetyStock :: jsnum
  reorderPoint :: jsnum

text \<open>\<^verbatim>\<open>dates.length || 1\<close> for the sorted distinct dates of the whole data set.\<close>

definition totalDays :: "SalesRecord list \<Rightarrow> real" where
  "totalDays data =
     (let dates = sort (uniqueFirst (map Date data)) in
      if length dates = 0 then 1 else real (length dates))"

text \<open>
  An entry of \<^verbatim>\<open>productMap\<close> is \<open>(qty, category)\<close>, with \<open>qty\<close> the pushed quantities.
  Every operation on numbers is the host's, in the order in which the code applies them;
  \<^verbatim>\<open>stdDev\<close> is NaN when the host's root is, and NaN spreads through the fields computed
  from it.
\<close>

definition inventoryRow ::
  "js_arith \<Rightarrow> real \<Rightarrow> real \<Rightarrow> string \<times> real list \<times> string \<Rightarrow> InventoryMetrics" where
  "inventoryRow ar days leadTimeDays e =
     (case e of (name, qty, cat) \<Rightarrow>
       (let Z = fconst ar 1.65;
            qtySum = foldl (\<lambda>a b. fadd ar a b) 0 qty;
            avgDaily = fdiv ar qtySum days;
            mean = fdiv ar (foldl (\<lambda>a b. fadd ar a b) 0 qty) (real (length qty));
            variance = fdiv ar (foldl (\<lambda>a b. fadd ar a (fpow ar (fsub ar b mean) 2)) 0 qty)
                         (real (length qty));
            stdDev = fsqrt ar variance;
            safety = mapNum2 (\<lambda>s root. mathCeil (fmul ar (fmul ar Z s) root))
                       stdDev (fsqrt ar leadTimeDays);
            reorder = mapNum (\<lambda>s. mathCeil (fadd ar s (fmul ar avgDaily leadTimeDays))) safety
        in \<lparr> productName = name, category = cat,
             avgDailySales = fdiv ar (mathRound (fmul ar avgDaily 100)) 100,
             salesVariance = mapNum (\<lambda>s. fdiv ar (mathRound (fmul ar s 100)) 100) stdDev,
             suggestedOrderQty = mathCeil (fmul ar avgDaily 30),
             safetyStock = safety,
             reorderPoint = reorder \<rparr>))"

definition calculateInventoryMetrics ::
  "js_arith \<Rightarrow> SalesRecord list \<Rightarrow> real \<Rightarrow> InventoryMetrics list" where
  "calculateInventoryMetrics ar data leadTimeDays =
     (let productMap = forEachGroup Product (\<lambda>row. ([], Category row))
                         (\<lambda>row (qty, cat). (qty @ [Quantity row], cat)) data
      in sortBy (\<lambda>a b. fsub ar (avgDailySales b) (avgDailySales a))
           (map (inventoryRow ar (totalDays data) leadTimeDays) productMap))"

text \<open>
  The specification's words: the quantities of a product's records, the number of distinct
  dates of the whole data set (at least 1), the daily average and the population standard
  deviation of a sample, the sums taken in the order of the records.
\<close>

definition productQuantities :: "SalesRecord list \<Rightarrow> string \<Rightarrow> real list" where
  "productQuantities data p = map Quantity (filter (\<lambda>r. Product r = p) data)"

definition distinctDays :: "SalesRecord list \<Rightarrow> real" where
  "distinctDays data = real (max 1 (card (Date ` set data)))"

definition dailyAverage :: "js_arith \<Rightarrow> SalesRecord list \<Rightarrow> string \<Rightarrow> real" where
  "dailyAverage ar data p =
     fdiv ar (foldl (\<lambda>a b. fadd ar a b) 0 (productQuantities data p)) (distinctDays data)"

definition populationStdDev :: "js_arith \<Rightarrow> real list \<Rightarrow> jsnum" where
  "populationStdDev ar qs =
     (let n = real (length qs);
          mean = fdiv ar (foldl (\<lambda>a b. fadd ar a b) 0 qs) n
      in fsqrt ar (fdiv ar (foldl (\<lambda>a q. fadd ar a (fpow ar (fsub ar q mean) 2)) 0 qs) n))"

subsection \<open>\<^verbatim>\<open>forecastNextMonth\<close>\<close>

record ForecastResult =
  nextMonthRevenue :: real
  nextMonthQty :: real
  trend :: Trend
  trendPercent :: real
  confidence :: Level
  forecastMethod :: string

definition noHistory :: string where
  "noHistory = [CHR 0xE7, CHR 0x84, CHR 0xA1, CHR 0xE6, CHR 0xAD, CHR 0xB7, CHR 0xE5, CHR 0x8F,
                CHR 0xB2, CHR 0xE6, CHR 0x95, CHR 0xB8, CHR 0xE6, CHR 0x93, CHR 0x9A]"

definition movingAverage3 :: string where
  "movingAverage3 = ''3'' @ [CHR 0xE5, CHR 0x80, CHR 0x8B, CHR 0xE6, CHR 0x9C, CHR 0x88, CHR 0xE7,
                CHR 0xA7, CHR 0xBB, CHR 0xE5, CHR 0x8B, CHR 0x95, CHR 0xE5, CHR 0xB9, CHR 0xB3, CHR 0xE5,
                CHR 0x9D, CHR 0x87]"

definition forecastNextMonth :: "SeasonalityData list \<Rightarrow> ForecastResult" where
  "forecastNextMonth seasonality =
     (if length seasonality = 0 then
        \<lparr> nextMonthRevenue = 0, nextMonthQty = 0, trend = STABLE, trendPercent = 0,
          confidence = LOW, forecastMethod = noHistory \<rparr>
      else
        (let recent = drop (length seasonality - 3) seasonality;
             revenues = map revenue recent;
             quantities = map sales recent;
             avgRevenue = foldl (\<lambda>a b. a + b) 0 revenues / real (length revenues);
             avgQty = foldl (\<lambda>a b. a + b) 0 quantities / real (length quantities);
             percent = (if length revenues \<ge> 2 then
                          (let lastMonth = revenues ! (length revenues - 1);
                               prevMonth = revenues ! (length revenues - 2)
                           in if prevMonth > 0 then (lastMonth - prevMonth) / prevMonth * 100 else 0)
                        else 0);
             direction = (if length revenues \<ge> 2 then
                            (if percent > 5 then UP else if percent < - 5 then DOWN else STABLE)
                          else STABLE);
             conf = (if length seasonality \<ge> 6 then HIGH
                     else if length seasonality < 3 then LOW else MEDIUM)
         in \<lparr> nextMonthRevenue = mathRound avgRevenue, nextMonthQty = mathRound avgQty,
              trend = direction, trendPercent = mathRound (percent * 10) / 10,
              confidence = conf, forecastMethod = movingAverage3 \<rparr>))"

subsection \<open>\<^verbatim>\<open>analyzeProfitMargin\<close>\<close>

record ProfitAnalysis = ProductRow +
  totalRevenue :: real
  totalCost :: real
  grossProfit :: real
  marginPercent :: real

text \<open>\<^verbatim>\<open>r.Cost !== undefined && r.Cost > 0\<close> and \<^verbatim>\<open>row.Cost || 0\<close>.\<close>

definition hasPositiveCost :: "SalesRecord \<Rightarrow> bool" where
  "hasPositiveCost r = (case Cost r of Some (Finite c) \<Rightarrow> c > 0 | _ \<Rightarrow> False)"

definition costOrZero :: "SalesRecord \<Rightarrow> real" where
  "costOrZero r = (case Cost r of Some (Finite c) \<Rightarrow> c | _ \<Rightarrow> 0)"

text \<open>
  An entry of \<^verbatim>\<open>productMap\<close> is \<open>(revSum, cost, cat)\<close> for the fields \<^verbatim>\<open>revenue\<close>,
  \<^verbatim>\<open>cost\<close>, \<^verbatim>\<open>category\<close>. Every operation on numbers is the host's.
\<close>

definition profitRow :: "js_arith \<Rightarrow> string \<times> real \<times> real \<times> string \<Rightarrow> ProfitAnalysis" where
  "profitRow ar e =
     (case e of (name, revSum, cost, cat) \<Rightarrow>
        \<lparr> productName = name, category = cat,
          totalRevenue = revSum, totalCost = cost, grossProfit = fsub ar revSum cost,
          marginPercent =
            (if revSum > 0
             then fdiv ar (mathRound (fmul ar (fdiv ar (fsub ar revSum cost) revSum) 1000)) 10
             else 0) \<rparr>)"

definition analyzeProfitMargin :: "js_arith \<Rightarrow> SalesRecord list \<Rightarrow> ProfitAnalysis list" where
  "analyzeProfitMargin ar data =
     (if \<not> (\<exists>r \<in> set data. hasPositiveCost r) then []
      else
        (let productMap = forEachGroup Product (\<lambda>row. (0, 0, Category row))
                            (\<lambda>row (revSum, cost, cat).
                               (fadd ar revSum (Amount row),
                                fadd ar cost (fmul ar (costOrZero row) (Quantity row)), cat)) data
         in sortBy (\<lambda>a b. fsub ar (marginPercent b) (marginPercent a))
              (filter (\<lambda>p. totalRevenue p > 0) (map (profitRow ar) productMap))))"

text \<open>
  The specification's words for the two sums: the revenue of a product is the sum of the
  amounts of its records, its cost the sum of unit cost times quantity over its records,
  both taken in the order of the records.
\<close>

definition productRevenue :: "js_arith \<Rightarrow> SalesRecord list \<Rightarrow> string \<Rightarrow> real" where
  "productRevenue ar data p =
     foldl (\<lambda>a b. fadd ar a b) 0 (map Amount (filter (\<lambda>r. Product r = p) data))"

definition productCost :: "js_arith \<Rightarrow> SalesRecord list \<Rightarrow> string \<Rightarrow> real" where
  "productCost ar data p =
     foldl (\<lambda>c r. fadd ar c (fmul ar (costOrZero r) (Quantity r))) 0
       (filter (\<lambda>r. Product r = p) data)"

subsection \<open>\<^verbatim>\<open>detectSlowMoving\<close>\<close>

record SlowMovingAlert = ProductRow +
  lastSaleDate :: string
  daysSinceLastSale :: real
  totalQtyInPeriod :: real
  riskLevel :: Level
  recommendation :: string

definition adviceHigh :: string where
  "adviceHigh = [CHR 0xE5, CHR 0xBB, CHR 0xBA, CHR 0xE8, CHR 0xAD, CHR 0xB0, CHR 0xE7, CHR 0xAB, CHR 0x8B,
     CHR 0xE5, CHR 0x8D, CHR 0xB3, CHR 0xE6, CHR 0xB8, CHR 0x85, CHR 0xE5, CHR 0x80, CHR 0x89, CHR 0xE6, CHR 0x88,
     CHR 0x96, CHR 0xE5, CHR 0x81, CHR 0x9C, CHR 0xE6, CHR 0xAD, CHR 0xA2, CHR 0xE9, CHR 0x80, CHR 0xB2, CHR 0xE8,
     CHR 0xB2, CHR 0xA8]"

definition adviceMedium :: string where
  "adviceMedium = [CHR 0xE5, CHR 0xBB, CHR 0xBA, CHR 0xE8, CHR 0xAD, CHR 0xB0, CHR 0xE4, CHR 0xBF, CHR 0x83,
     CHR 0xE9, CHR 0x8A, CHR 0xB7, CHR 0xE6, CHR 0xB4, CHR 0xBB, CHR 0xE5, CHR 0x8B, CHR 0x95, CHR 0xE6, CHR 0x88,
     CHR 0x96, CHR 0xE9, CHR 0x99, CHR 0x8D, CHR 0xE5, CHR 0x83, CHR 0xB9, CHR 0xE8, CHR 0x99, CHR 0x95, CHR 0xE7,
     CHR 0x90, CHR 0x86]"

definition adviceLow :: string where
  "adviceLow = [CHR 0xE6, CHR 0x8C, CHR 0x81, CHR 0xE7, CHR 0xBA, CHR 0x8C, CHR 0xE8, CHR 0xA7, CHR 0x80,
     CHR 0xE5, CHR 0xAF, CHR 0x9F, CHR 0xE9, CHR 0x8A, CHR 0xB7, CHR 0xE5, CHR 0x94, CHR 0xAE, CHR 0xE7, CHR 0x8B,
     CHR 0x80, CHR 0xE6, CHR 0xB3, CHR 0x81]"

text \<open>
  \<^verbatim>\<open>Math.ceil((a.getTime() - b.getTime()) / (1000 * 60 * 60 * 24))\<close>: NaN as soon as
  one of the two dates is invalid.
\<close>

definition ceilDaysBetween :: "int option \<Rightarrow> int option \<Rightarrow> jsnum" where
  "ceilDaysBetween a b =
     (case (a, b) of
        (Some ta, Some tb) \<Rightarrow> Finite (mathCeil ((real_of_int ta - real_of_int tb) / (1000 * 60 * 60 * 24)))
      | _ \<Rightarrow> NaN)"

text \<open>An entry of \<^verbatim>\<open>productMap\<close> is \<open>(lastSale, qtySum, cat)\<close> for the fields
  \<^verbatim>\<open>lastSale\<close>, \<^verbatim>\<open>totalQty\<close>, \<^verbatim>\<open>category\<close>.\<close>

definition lastSales :: "SalesRecord list \<Rightarrow> (string \<times> string \<times> real \<times> string) list" where
  "lastSales data =
     forEachGroup Product (\<lambda>row. (Date row, 0, Category row))
       (\<lambda>row (lastSale, qtySum, cat).
          (if Date row > lastSale then Date row else lastSale, qtySum + Quantity row, cat)) data"

text \<open>
  The specification's "last observed date": the greatest date string other than the
  marker, as a date.
\<close>

definition lastObservedDate :: "js_builtins \<Rightarrow> SalesRecord list \<Rightarrow> int option" where
  "lastObservedDate js data =
     newDate js (JStr (last (sort (filter (\<lambda>d. d \<noteq> ''Unknown'') (map Date data)))))"

text \<open>
  The body of \<^verbatim>\<open>productMap.forEach\<close>: the alerts one product pushes, none when the test
  \<^verbatim>\<open>daysSinceLastSale >= thresholdDays\<close> is false (as it is for NaN).
\<close>

definition alertFor ::
  "js_builtins \<Rightarrow> int option \<Rightarrow> real \<Rightarrow> string \<times> string \<times> real \<times> string \<Rightarrow> SlowMovingAlert list" where
  "alertFor js lastRecordDate thresholdDays e =
     (case e of (name, lastSale, qtySum, cat) \<Rightarrow>
        (case ceilDaysBetween lastRecordDate (newDate js (JStr lastSale)) of
           NaN \<Rightarrow> []
         | Finite days \<Rightarrow>
             if days \<ge> thresholdDays then
               [\<lparr> productName = name, category = cat, lastSaleDate = lastSale,
                  daysSinceLastSale = days, totalQtyInPeriod = qtySum,
                  riskLevel = (if days \<ge> 60 then HIGH else if days \<ge> 30 then MEDIUM else LOW),
                  recommendation = (if days \<ge> 60 then adviceHigh
                                    else if days \<ge> 30 then adviceMedium else adviceLow) \<rparr>]
             else []))"

definition detectSlowMoving :: "js_builtins \<Rightarrow> SalesRecord list \<Rightarrow> real \<Rightarrow> SlowMovingAlert list" where
  "detectSlowMoving js data thresholdDays =
     (let dates = sort (filter (\<lambda>d. d \<noteq> ''Unknown'') (map Date data)) in
      if length dates = 0 then []
      else
        (let lastRecordDate = newDate js (JStr (dates ! (length dates - 1)));
             firstRecordDate = newDate js (JStr (dates ! 0));
             dataCoverageDays = mapNum (\<lambda>n. n + 1) (ceilDaysBetween lastRecordDate firstRecordDate)
         in sortBy (\<lambda>a b. daysSinceLastSale b - daysSinceLastSale a)
              (concat (map (alertFor js lastRecordDate thresholdDays) (lastSales data)))))"

section \<open>Example inputs\<close>

definition zeroRow :: raw_row where
  "zeroRow = [(''Date'', JStr ''2024-01-05''), (''Product'', JStr ''Cable''),
              (''Qty'', JNum 0), (''Amount'', JNum 0)]"

definition saleRow :: raw_row where
  "saleRow = [(''Date'', JStr ''2024-01-05''), (''Product'', JStr ''LG TV''),
              (''Qty'', JNum 2), (''Amount'', JNum 40000)]"

definition saleRecord :: SalesRecord where
  "saleRecord = \<lparr> Date = ''2024-01-05'', Category = uncategorized, Product = ''LG TV'',
                   Quantity = 2, Amount = 40000, Cost = None,
                   Brand = ''LG '' @ [CHR 0xE6, CHR 0xA8, CHR 0x82, CHR 0xE9, CHR 0x87, CHR 0x91],
                   isGift = Some False \<rparr>"

definition monthRow :: "string \<Rightarrow> real \<Rightarrow> real \<Rightarrow> SeasonalityData" where
  "monthRow m q r = \<lparr> revenue = r, month = m, sales = q, topCategory = ''TV'' \<rparr>"

definition zeroSerialRow :: raw_row where
  "zeroSerialRow = [(''Date'', JNum 0), (''Product'', JStr ''LG TV''),
                    (''Qty'', JNum 2), (''Amount'', JNum 40000)]"

definition serialRow :: raw_row where
  "serialRow = [(''Date'', JNum 45292), (''Product'', JStr ''LG TV''),
                (''Qty'', JNum 2), (''Amount'', JNum 40000)]"

definition pipeRowA :: raw_row where
  "pipeRowA = [(''Date'', JStr ''x|y''), (''Product'', JStr ''z''), (''Qty'', JNum 1), (''Amount'', JNum 1)]"

definition pipeRowB :: raw_row where
  "pipeRowB = [(''Date'', JStr ''x''), (''Product'', JStr ''y|z''), (''Qty'', JNum 1), (''Amount'', JNum 1)]"

definition pipeRecord :: "string \<Rightarrow> string \<Rightarrow> SalesRecord" where
  "pipeRecord d p = \<lparr> Date = d, Category = uncategorized, Product = p, Quantity = 1, Amount = 1,
                       Cost = None, Brand = otherBrand, isGift = None \<rparr>"

definition repeatedRows :: "raw_row list" where
  "repeatedRows =
     [saleRow, zeroRow,
      [(''Date'', JStr ''2024-01-05''), (''Product'', JStr ''LG TV''), (''Qty'', JNum 2),
       (''Amount'', JNum 40000), (''Category'', JStr ''TV'')],
      zeroRow]"

definition noDateRow :: raw_row where
  "noDateRow = [(''Product'', JStr ''Speaker''), (''Qty'', JNum 1), (''Amount'', JNum 2000)]"

definition textDateRow :: raw_row where
  "textDateRow = [(''Date'', JStr ''n/a''), (''Product'', JStr ''Speaker''),
                  (''Qty'', JNum 1), (''Amount'', JNum 2000)]"

definition textDateData :: "SalesRecord list" where
  "textDateData =
     [\<lparr> Date = ''Unknown'', Category = uncategorized, Product = ''Speaker'', Quantity = 1,
         Amount = 2000, Cost = None, Brand = otherBrand, isGift = Some False \<rparr>,
      \<lparr> Date = ''n/a'', Category = uncategorized, Product = ''Speaker'', Quantity = 1,
         Amount = 2000, Cost = None, Brand = otherBrand, isGift = Some False \<rparr>]"

definition sale :: "string \<Rightarrow> string \<Rightarrow> string \<Rightarrow> string \<Rightarrow> real \<Rightarrow> real \<Rightarrow> SalesRecord" where
  "sale d c p b q a = \<lparr> Date = d, Category = c, Product = p, Quantity = q, Amount = a,
                        Cost = None, Brand = b, isGift = None \<rparr>"

definition exampleData :: "SalesRecord list" where
  "exampleData =
     [sale ''2024-01-05'' ''Fridge'' ''LG Fridge X'' ''LG'' 2 40000,
      sale ''2024-01-06'' ''Fridge'' ''LG Fridge X'' ''LG'' 1 20000,
      sale ''2024-02-06'' ''TV'' ''Sony TV'' ''Sony'' 1 15000]"

definition exampleSubset :: "SalesRecord list" where
  "exampleSubset = [sale ''2024-02-06'' ''TV'' ''Sony TV'' ''Sony'' 1 15000]"

definition giftSale :: SalesRecord where
  "giftSale = \<lparr> Date = ''2024-01-05'', Category = ''TV'', Product = ''HDMI cable'',
                 Quantity = 1, Amount = 0, Cost = Some (Finite 120), Brand = ''Other'',
                 isGift = Some True \<rparr>"

definition costedData :: "SalesRecord list" where
  "costedData =
     [(sale ''2024-01-05'' ''TV'' ''Sony TV'' ''Sony'' 1 15000)\<lparr>Cost := Some (Finite 11250)\<rparr>,
      (sale ''2024-01-05'' ''Fridge'' ''LG Fridge X'' ''LG'' 2 40000)\<lparr>Cost := Some (Finite 10000)\<rparr>,
      giftSale]"

definition slowData :: "SalesRecord list" where
  "slowData =
     [sale ''2024-03-01'' ''TV'' ''Sony TV'' ''Sony'' 1 15000,
      sale ''2023-12-01'' ''Fridge'' ''LG Fridge X'' ''LG'' 2 40000,
      sale ''2024-01-20'' ''Fan'' ''Desk fan'' ''Other'' 1 900,
      sale ''2024-02-20'' ''Audio'' ''Speaker'' ''Other'' 1 2000,
      sale ''Unknown'' ''Audio'' ''Speaker'' ''Other'' 1 2000]"

definition utcStringData :: "SalesRecord list" where
  "utcStringData =
     [sale ''Wed, 05 Feb 2025 00:00:00 GMT'' ''TV'' ''Sony TV'' ''Sony'' 1 15000,
      sale ''Unknown'' ''Audio'' ''Speaker'' ''Other'' 1 2000,
      sale ''Wed, 01 Jan 2025 00:00:00 GMT'' ''Audio'' ''Speaker'' ''Other'' 1 2000]"


definition nearTieData :: "SalesRecord list" where
  "nearTieData =
     [sale ''2024-01-05'' ''Cable'' ''Cable A'' ''Other'' 1 100,
      sale ''2024-01-05'' ''Cable'' ''Cable B'' ''Other'' (257 / 256) 100]"

definition stockData :: "SalesRecord list" where
  "stockData =
     [sale ''2024-01-05'' ''Fan'' ''Desk fan'' ''Other'' 1 900,
      sale ''2024-01-06'' ''Fan'' ''Desk fan'' ''Other'' 3 2700,
      sale ''2024-01-06'' ''TV'' ''Sony TV'' ''Sony'' 1 15000]"

section \<open>Properties of the normaliser\<close>

lemma mapM_Inr_map: "mapM f xs = Inr ys \<Longrightarrow> map f xs = map Inr ys"
  by (induction xs arbitrary: ys) (auto split: sum.splits)

text \<open>
  Claim C2. Whenever \<^verbatim>\<open>normalizeData\<close> returns, every record of its output has
  \<open>Quantity > 0\<close> or \<open>Amount > 0\<close>; a raw row that normalises to quantity 0 and amount 0
  contributes no record: the output is exactly the normalised rows that pass this test, in
  order. (When the call throws there is no output at all.)
\<close>

theorem normalizeData_keeps_positive_sales:
  assumes "normalizeData js rawData = Inr out"
  shows "(\<forall>r \<in> set out. Quantity r > 0 \<or> Amount r > 0) \<and>
         (\<forall>row \<in> set rawData. \<forall>r. normalizeRow js row = Inr r \<and> Quantity r = 0 \<and> Amount r = 0
             \<longrightarrow> r \<notin> set out) \<and>
         (\<exists>rs. map (normalizeRow js) rawData = map Inr rs \<and>
               out = filter (\<lambda>r. Quantity r > 0 \<or> Amount r > 0) rs)"
proof -
  from assms obtain rs where rs: "mapM (normalizeRow js) rawData = Inr rs"
    and out: "out = filter positiveSale rs"
    by (auto simp: normalizeData_def split: sum.splits)
  have pos: "\<forall>r \<in> set out. Quantity r > 0 \<or> Amount r > 0"
    using out by (auto simp: positiveSale_def)
  moreover have "\<forall>row \<in> set rawData. \<forall>r. normalizeRow js row = Inr r \<and> Quantity r = 0 \<and> Amount r = 0
             \<longrightarrow> r \<notin> set out"
    using pos by auto
  moreover have "map (normalizeRow js) rawData = map Inr rs"
    using rs by (rule mapM_Inr_map)
  moreover have "out = filter (\<lambda>r. Quantity r > 0 \<or> Amount r > 0) rs"
    using out by (simp add: positiveSale_def[abs_def])
  ultimately show ?thesis by blast
qed

theorem normalizeData_keeps_positive_sales_witness:
  "normalizeData sampleHost [zeroRow, saleRow] = Inr [saleRecord] \<and>
   normalizeRow sampleHost zeroRow \<noteq> Inr saleRecord \<and>
   (Quantity saleRecord > 0 \<or> Amount saleRecord > 0)"
proof -
  have run: "normalizeData sampleHost [zeroRow, saleRow] = Inr [saleRecord]"
    by code_simp
  have zero: "normalizeRow sampleHost zeroRow \<noteq> Inr saleRecord"
    by code_simp
  from normalizeData_keeps_positive_sales [OF run]
  have "\<forall>r \<in> set [saleRecord]. Quantity r > 0 \<or> Amount r > 0"
    by blast
  with run zero show ?thesis by simp
qed

subsection \<open>Deduplication\<close>

lemma dedupMap_markFirst:
  "dedupMap js seenRows rows = Inr outs \<Longrightarrow>
   \<exists>rs. mapM (normalizeRowDedup js) rows = Inr rs \<and> outs = markFirst js seenRows rs"
proof (induction rows arbitrary: seenRows outs)
  case Nil
  then show ?case by simp
next
  case (Cons row rows)
  from Cons.prems obtain r where r: "normalizeRowDedup js row = Inr r"
    by (auto split: sum.splits)
  show ?case
  proof (cases "rowKey js r \<in> set seenRows")
    case True
    with Cons.prems r obtain out' where o: "dedupMap js seenRows rows = Inr out'" and outs: "outs = None # out'"
      by (auto split: sum.splits)
    from Cons.IH [OF o] obtain rs where "mapM (normalizeRowDedup js) rows = Inr rs"
      and "out' = markFirst js seenRows rs" by blast
    with r True outs show ?thesis by simp
  next
    case False
    with Cons.prems r obtain out' where o: "dedupMap js (rowKey js r # seenRows) rows = Inr out'"
      and outs: "outs = Some r # out'"
      by (auto split: sum.splits)
    from Cons.IH [OF o] obtain rs where "mapM (normalizeRowDedup js) rows = Inr rs"
      and "out' = markFirst js (rowKey js r # seenRows) rs" by blast
    with r False outs show ?thesis by simp
  qed
qed

lemma length_markFirst: "length (markFirst js seenRows rs) = length rs"
  by (induction rs arbitrary: seenRows) simp_all

lemma markFirst_nth:
  "i < length rs \<Longrightarrow>
   markFirst js seenRows rs ! i =
     (if rowKey js (rs ! i) \<in> set seenRows \<or> (\<exists>j < i. rowKey js (rs ! j) = rowKey js (rs ! i))
      then None else Some (rs ! i))"
proof (induction rs arbitrary: seenRows i)
  case Nil
  then show ?case by simp
next
  case (Cons r rs)
  show ?case
  proof (cases i)
    case 0
    then show ?thesis by simp
  next
    case (Suc k)
    with Cons.prems have k: "k < length rs" by simp
    have ex: "(\<exists>j < Suc k. rowKey js ((r # rs) ! j) = x) \<longleftrightarrow>
              rowKey js r = x \<or> (\<exists>j < k. rowKey js (rs ! j) = x)" for x
      by (auto simp: less_Suc_eq_0_disj)
    show ?thesis
      unfolding Suc using Cons.IH [OF k] by (auto simp: ex)
  qed
qed

lemma distinct_map_coarser:
  assumes "distinct (map f xs)" and "\<And>x y. g x = g y \<Longrightarrow> f x = f y"
  shows "distinct (map g xs)"
  using assms(1)
proof (induction xs)
  case Nil
  show ?case by simp
next
  case (Cons x xs)
  have "g x \<notin> g ` set xs"
  proof
    assume "g x \<in> g ` set xs"
    then obtain y where y: "y \<in> set xs" and "g x = g y" by auto
    from this(2) have "f x = f y" by (rule assms(2))
    with y have "f x \<in> f ` set xs" by simp
    with Cons.prems show False by simp
  qed
  with Cons show ?case by simp
qed

text \<open>Equal composite keys give equal key strings.\<close>

lemma rowKey_compositeKey: "compositeKey r = compositeKey r' \<Longrightarrow> rowKey js r = rowKey js r'"
  by (simp add: compositeKey_def rowKey_def)

lemma kept_keys:
  "distinct (map (rowKey js) (map the (filter keepSale (markFirst js seenRows rs)))) \<and>
   set (map (rowKey js) (map the (filter keepSale (markFirst js seenRows rs)))) \<inter> set seenRows = {}"
proof (induction rs arbitrary: seenRows)
  case Nil
  show ?case by simp
next
  case (Cons r rs)
  show ?case
  proof (cases "rowKey js r \<in> set seenRows")
    case True
    with Cons [of seenRows] show ?thesis by (simp add: keepSale_def)
  next
    case False
    with Cons [of "rowKey js r # seenRows"] show ?thesis by (auto simp: keepSale_def)
  qed
qed

lemma kept_members:
  "set (map the (filter keepSale outs)) = {r. Some r \<in> set outs \<and> (Quantity r > 0 \<or> Amount r > 0)}"
  by (induction outs) (auto simp: keepSale_def split: option.splits)

text \<open>
  Claim C8, as amended. When the deduplicating \<^verbatim>\<open>normalizeData\<close> returns, its output
  has at most one record per composite key (date, product name, quantity, amount). With
  \<open>rs\<close> the records of the input rows and \<open>outs\<close> the results of the callback, every output
  record is the record of the first row with its composite key, and every later row with the
  same composite key is discarded (its callback result is \<^verbatim>\<open>null\<close>). The record of a row
  is retained when it has a positive quantity or amount and no earlier row produced the same
  key string.
\<close>

theorem normalizeDataDedup_first_wins:
  assumes "normalizeDataDedup js rawData = Inr out"
  shows "distinct (map compositeKey out) \<and>
         (\<exists>rs outs.
            map (normalizeRowDedup js) rawData = map Inr rs \<and>
            dedupMap js [] rawData = Inr outs \<and> length outs = length rs \<and>
            out = map the (filter keepSale outs) \<and>
            (\<forall>r \<in> set out. \<exists>i < length rs. rs ! i = r \<and> outs ! i = Some r \<and>
                (\<forall>j < i. compositeKey (rs ! j) \<noteq> compositeKey r)) \<and>
            (\<forall>i < length rs. (\<exists>j < i. compositeKey (rs ! j) = compositeKey (rs ! i)) \<longrightarrow> outs ! i = None) \<and>
            (\<forall>i < length rs. (Quantity (rs ! i) > 0 \<or> Amount (rs ! i) > 0) \<and>
                (\<forall>j < i. rowKey js (rs ! j) \<noteq> rowKey js (rs ! i)) \<longrightarrow> rs ! i \<in> set out))"
proof -
  from assms obtain outs where outs: "dedupMap js [] rawData = Inr outs"
    and out: "out = map the (filter keepSale outs)"
    by (auto simp: normalizeDataDedup_def split: sum.splits)
  from dedupMap_markFirst [OF outs] obtain rs
    where rs: "mapM (normalizeRowDedup js) rawData = Inr rs" and mf: "outs = markFirst js [] rs"
    by blast
  have len: "length outs = length rs"
    by (simp add: mf length_markFirst)
  have nth: "outs ! i = (if \<exists>j < i. rowKey js (rs ! j) = rowKey js (rs ! i) then None else Some (rs ! i))"
    if "i < length rs" for i
    using markFirst_nth [OF that, of js "[]"] by (simp add: mf)

  have "distinct (map (rowKey js) out)"
    using kept_keys [of js "[]" rs] by (simp add: out mf)
  then have distinct: "distinct (map compositeKey out)"
    by (rule distinct_map_coarser) (rule rowKey_compositeKey)

  have origin: "\<exists>i < length rs. rs ! i = r \<and> outs ! i = Some r \<and>
                (\<forall>j < i. compositeKey (rs ! j) \<noteq> compositeKey r)" if "r \<in> set out" for r
  proof -
    from that have "Some r \<in> set outs"
      using kept_members [of outs] by (auto simp: out)
    then obtain i where i: "i < length outs" and oi: "outs ! i = Some r"
      by (auto simp: in_set_conv_nth)
    from i len have i': "i < length rs" by simp
    from nth [OF i'] oi have ri: "rs ! i = r"
      and first: "\<forall>j < i. rowKey js (rs ! j) \<noteq> rowKey js (rs ! i)"
      by (auto split: if_splits)
    from first ri have "\<forall>j < i. compositeKey (rs ! j) \<noteq> compositeKey r"
      using rowKey_compositeKey [of _ r js] by blast
    with i' ri oi show ?thesis by blast
  qed

  have later: "outs ! i = None"
    if "i < length rs" and "\<exists>j < i. compositeKey (rs ! j) = compositeKey (rs ! i)" for i
  proof -
    from that(2) have "\<exists>j < i. rowKey js (rs ! j) = rowKey js (rs ! i)"
      using rowKey_compositeKey [of _ "rs ! i" js] by blast
    with nth [OF that(1)] show ?thesis by simp
  qed

  have retained: "rs ! i \<in> set out"
    if "i < length rs" and "Quantity (rs ! i) > 0 \<or> Amount (rs ! i) > 0"
      and "\<forall>j < i. rowKey js (rs ! j) \<noteq> rowKey js (rs ! i)" for i
  proof -
    from nth [OF that(1)] that(3) have "outs ! i = Some (rs ! i)"
      by simp
    with that(1) len have "Some (rs ! i) \<in> set outs"
      by (metis nth_mem)
    with that(2) show ?thesis
      using kept_members [of outs] by (auto simp: out)
  qed

  have rows: "map (normalizeRowDedup js) rawData = map Inr rs"
    using rs by (rule mapM_Inr_map)
  show ?thesis
  proof (intro conjI exI)
    show "distinct (map compositeKey out)"
      by (rule distinct)
    show "map (normalizeRowDedup js) rawData = map Inr rs"
      by (rule rows)
    show "dedupMap js [] rawData = Inr outs"
      by (rule outs)
    show "length outs = length rs"
      by (rule len)
    show "out = map the (filter keepSale outs)"
      by (rule out)
    show "\<forall>r \<in> set out. \<exists>i < length rs. rs ! i = r \<and> outs ! i = Some r \<and>
                (\<forall>j < i. compositeKey (rs ! j) \<noteq> compositeKey r)"
      using origin by blast
    show "\<forall>i < length rs. (\<exists>j < i. compositeKey (rs ! j) = compositeKey (rs ! i)) \<longrightarrow> outs ! i = None"
      using later by blast
    show "\<forall>i < length rs. (Quantity (rs ! i) > 0 \<or> Amount (rs ! i) > 0) \<and>
                (\<forall>j < i. rowKey js (rs ! j) \<noteq> rowKey js (rs ! i)) \<longrightarrow> rs ! i \<in> set out"
      using retained by blast
  qed
qed

text \<open>
  Claim C8 as stated fails: the first row with the key of a zero quantity and zero amount
  is not retained, since the output filter drops it; and the first row with the key
  \<open>(''x'', ''y|z'', 1, 1)\<close> is not retained after a row with the different key
  \<open>(''x|y'', ''z'', 1, 1)\<close>, since both give the key string \<open>''x|y|z|1|1''\<close>.
\<close>

theorem normalizeDataDedup_counterexample:
  "normalizeDataDedup sampleHost [zeroRow] = Inr [] \<and>
   normalizeDataDedup sampleHost [pipeRowA, pipeRowB] = Inr [pipeRecord ''x|y'' ''z''] \<and>
   normalizeRowDedup sampleHost pipeRowB = Inr (pipeRecord ''x'' ''y|z'') \<and>
   compositeKey (pipeRecord ''x'' ''y|z'') \<noteq> compositeKey (pipeRecord ''x|y'' ''z'')"
  by code_simp

theorem normalizeDataDedup_first_wins_witness:
  "normalizeDataDedup sampleHost repeatedRows = Inr [saleRecord\<lparr>isGift := None\<rparr>] \<and>
   distinct (map compositeKey [saleRecord\<lparr>isGift := None\<rparr>]) \<and>
   Category (saleRecord\<lparr>isGift := None\<rparr>) = uncategorized"
proof -
  have run: "normalizeDataDedup sampleHost repeatedRows = Inr [saleRecord\<lparr>isGift := None\<rparr>]"
    by code_simp
  have cat: "Category (saleRecord\<lparr>isGift := None\<rparr>) = uncategorized"
    by (simp add: saleRecord_def)
  from normalizeDataDedup_first_wins [OF run]
  have "distinct (map compositeKey [saleRecord\<lparr>isGift := None\<rparr>])"
    by (rule conjunct1)
  with run cat show ?thesis by (intro conjI)
qed

subsection \<open>Dates\<close>

lemma length_padDigits: "length (padDigits w n) = w"
  by (induction w arbitrary: n) simp_all

lemma isDigit_digitChar: "isDigit (digitChar n)"
proof -
  have "nat (n mod 10) < length ''0123456789''" by simp
  then have "''0123456789'' ! nat (n mod 10) \<in> set ''0123456789''"
    by (rule nth_mem)
  then show ?thesis by (simp only: isDigit_def digitChar_def)
qed

lemma padDigits_4:
  "padDigits 4 n = [digitChar (n div 10 div 10 div 10), digitChar (n div 10 div 10),
                    digitChar (n div 10), digitChar n]"
proof -
  have four: "(4::nat) = Suc (Suc (Suc (Suc 0)))"
    by simp
  show ?thesis
    unfolding four by simp
qed

lemma padDigits_2: "padDigits 2 n = [digitChar (n div 10), digitChar n]"
proof -
  have two: "(2::nat) = Suc (Suc 0)"
    by simp
  show ?thesis
    unfolding two by simp
qed

lemma isYMD_ymdString: "isYMD (ymdString date)"
  by (cases date) (simp add: ymdString_def isYMD_def padDigits_4 padDigits_2 isDigit_digitChar)

lemma take_10_toISOString:
  assumes "0 \<le> fst (civilFromDays (t div 86400000))" and "fst (civilFromDays (t div 86400000)) \<le> 9999"
  shows "take 10 (toISOString t) = ymdString (civilFromDays (t div 86400000))"
proof -
  obtain y m d where c: "civilFromDays (t div 86400000) = (y, m, d)"
    by (cases "civilFromDays (t div 86400000)") auto
  with assms have y: "yearString y = padDigits 4 y"
    by (simp add: yearString_def)
  show ?thesis
    by (simp add: toISOString_def Let_def c ymdString_def y padDigits_4 padDigits_2)
qed

lemma serial_ms: "(x - (25567 + 2)) * 86400 * 1000 = (x - 25569) * 86400000"
  for x :: real
  by (simp add: algebra_simps)

lemma normalizeDate_number:
  "x \<noteq> 0 \<Longrightarrow> normalizeDate js (JNum x) = isoDay (timeClip ((x - 25569) * 86400000))"
  unfolding normalizeDate_def serial_ms by simp

lemma timeClip_of_int:
  assumes "\<bar>k\<bar> \<le> 8640000000000000"
  shows "timeClip (real_of_int k) = Some k"
proof -
  from assms have "\<bar>real_of_int k\<bar> \<le> real_of_int 8640000000000000"
    unfolding of_int_abs [symmetric] by (simp only: of_int_le_iff)
  then show ?thesis
    by (simp add: timeClip_def)
qed

lemma timeClip_serial:
  assumes "\<bar>n - 25569\<bar> \<le> 100000000"
  shows "timeClip ((real_of_int n - 25569) * 86400000) = Some ((n - 25569) * 86400000)"
proof -
  have eq: "(real_of_int n - 25569) * 86400000 = real_of_int ((n - 25569) * 86400000)"
    by simp
  have "\<bar>(n - 25569) * 86400000\<bar> \<le> 8640000000000000"
    using assms by (simp add: abs_mult)
  then show ?thesis
    unfolding eq by (rule timeClip_of_int)
qed

text \<open>The date of a row, once the detected date value is known.\<close>

lemma normalizeRow_Date:
  "normalizeDate js (getVal js row datePatterns) = Inr s \<Longrightarrow>
   \<exists>r. normalizeRow js row = Inr r \<and> Date r = s"
  by (simp add: normalizeRow_def Let_def)

text \<open>
  Claim C7, as amended. Let \<open>v\<close> be the detected date value of a raw row.
  \<^item> If \<open>v\<close> is a number other than 0 whose serial date
    \<open>(v - 25569) \<times> 86400000\<close> ms is in the range of \<^verbatim>\<open>Date\<close> and falls in the years
    0 to 9999, the row is normalised and its date is the \<^verbatim>\<open>YYYY-MM-DD\<close> rendering of
    that day; for an integer serial \<open>n\<close> this is day \<open>n - 25569\<close> counted from 1970-01-01.
  \<^item> If \<open>v\<close> is a non-empty string that parses to a date in the years 0 to 9999, the date
    is rendered the same way.
  \<^item> If \<open>v\<close> is a non-empty string that does not parse, the date is the string itself.
  \<^item> If \<open>v\<close> is falsy (absent, \<^verbatim>\<open>null\<close>, the number 0, the empty string, \<^verbatim>\<open>false\<close>),
    the date is the marker \<open>''Unknown''\<close>.
\<close>

theorem normalizeDate_rendering:
  assumes "getVal js row datePatterns = v"
  shows "(\<forall>x t. v = JNum x \<and> x \<noteq> 0 \<and> timeClip ((x - 25569) * 86400000) = Some t \<and>
            0 \<le> fst (civilFromDays (t div 86400000)) \<and> fst (civilFromDays (t div 86400000)) \<le> 9999
            \<longrightarrow> (\<exists>r. normalizeRow js row = Inr r \<and>
                     Date r = ymdString (civilFromDays (t div 86400000)) \<and> isYMD (Date r))) \<and>
         (\<forall>n. v = JNum (of_int n) \<and> n \<noteq> 0 \<and> \<bar>n - 25569\<bar> \<le> 100000000 \<and>
            0 \<le> fst (civilFromDays (n - 25569)) \<and> fst (civilFromDays (n - 25569)) \<le> 9999
            \<longrightarrow> (\<exists>r. normalizeRow js row = Inr r \<and>
                     Date r = ymdString (civilFromDays (n - 25569)) \<and> isYMD (Date r))) \<and>
         (\<forall>s t. v = JStr s \<and> s \<noteq> [] \<and> dateParse js s = Some t \<and>
            0 \<le> fst (civilFromDays (t div 86400000)) \<and> fst (civilFromDays (t div 86400000)) \<le> 9999
            \<longrightarrow> (\<exists>r. normalizeRow js row = Inr r \<and>
                     Date r = ymdString (civilFromDays (t div 86400000)) \<and> isYMD (Date r))) \<and>
         (\<forall>s. v = JStr s \<and> s \<noteq> [] \<and> dateParse js s = None
            \<longrightarrow> (\<exists>r. normalizeRow js row = Inr r \<and> Date r = s)) \<and>
         (\<not> truthy v \<longrightarrow> (\<exists>r. normalizeRow js row = Inr r \<and> Date r = ''Unknown''))"
proof (intro conjI allI impI)
  fix x t
  assume a: "v = JNum x \<and> x \<noteq> 0 \<and> timeClip ((x - 25569) * 86400000) = Some t \<and>
            0 \<le> fst (civilFromDays (t div 86400000)) \<and> fst (civilFromDays (t div 86400000)) \<le> 9999"
  then have "normalizeDate js v = Inr (take 10 (toISOString t))"
    by (simp add: normalizeDate_number isoDay_def)
  with a have "normalizeDate js (getVal js row datePatterns)
               = Inr (ymdString (civilFromDays (t div 86400000)))"
    by (simp add: assms take_10_toISOString)
  from normalizeRow_Date [OF this]
  show "\<exists>r. normalizeRow js row = Inr r \<and>
            Date r = ymdString (civilFromDays (t div 86400000)) \<and> isYMD (Date r)"
    by (auto simp: isYMD_ymdString)
next
  fix n :: int
  assume a: "v = JNum (of_int n) \<and> n \<noteq> 0 \<and> \<bar>n - 25569\<bar> \<le> 100000000 \<and>
            0 \<le> fst (civilFromDays (n - 25569)) \<and> fst (civilFromDays (n - 25569)) \<le> 9999"
  then have clip: "timeClip ((real_of_int n - 25569) * 86400000) = Some ((n - 25569) * 86400000)"
    by (simp only: timeClip_serial)
  have day: "(n - 25569) * 86400000 div 86400000 = n - 25569"
    by simp
  from a have "real_of_int n \<noteq> 0"
    by simp
  with a clip have "normalizeDate js v = Inr (take 10 (toISOString ((n - 25569) * 86400000)))"
    by (simp add: normalizeDate_number isoDay_def del: of_int_mult of_int_diff)
  with a have "normalizeDate js (getVal js row datePatterns)
               = Inr (ymdString (civilFromDays (n - 25569)))"
    by (simp add: assms take_10_toISOString day)
  from normalizeRow_Date [OF this]
  show "\<exists>r. normalizeRow js row = Inr r \<and>
            Date r = ymdString (civilFromDays (n - 25569)) \<and> isYMD (Date r)"
    by (auto simp: isYMD_ymdString)
next
  fix s t
  assume a: "v = JStr s \<and> s \<noteq> [] \<and> dateParse js s = Some t \<and>
            0 \<le> fst (civilFromDays (t div 86400000)) \<and> fst (civilFromDays (t div 86400000)) \<le> 9999"
  then have "normalizeDate js v = Inr (take 10 (toISOString t))"
    by (simp add: normalizeDate_def isoDay_def Let_def)
  with a have "normalizeDate js (getVal js row datePatterns)
               = Inr (ymdString (civilFromDays (t div 86400000)))"
    by (simp add: assms take_10_toISOString)
  from normalizeRow_Date [OF this]
  show "\<exists>r. normalizeRow js row = Inr r \<and>
            Date r = ymdString (civilFromDays (t div 86400000)) \<and> isYMD (Date r)"
    by (auto simp: isYMD_ymdString)
next
  fix s
  assume a: "v = JStr s \<and> s \<noteq> [] \<and> dateParse js s = None"
  then have "normalizeDate js (getVal js row datePatterns) = Inr s"
    by (simp add: assms normalizeDate_def Let_def)
  from normalizeRow_Date [OF this]
  show "\<exists>r. normalizeRow js row = Inr r \<and> Date r = s" .
next
  assume "\<not> truthy v"
  then have "normalizeDate js (getVal js row datePatterns) = Inr ''Unknown''"
    by (simp add: assms normalizeDate_def)
  from normalizeRow_Date [OF this]
  show "\<exists>r. normalizeRow js row = Inr r \<and> Date r = ''Unknown''" .
qed

text \<open>
  Claim C7 as stated fails on numeric date values: the serial 0 is falsy and gives the
  marker \<open>''Unknown''\<close>; the number 20240105 (a date written as YYYYMMDD) is taken as a
  serial in the year 57315 and rendered as the first ten characters of the expanded-year
  form; the serial 200000000 is out of the range of \<^verbatim>\<open>Date\<close> and \<^verbatim>\<open>toISOString\<close>
  throws. The empty string is falsy too and is not passed through.
\<close>

theorem normalizeDate_counterexample:
  "getVal sampleHost zeroSerialRow datePatterns = JNum 0 \<and>
   normalizeData sampleHost [zeroSerialRow] = Inr [saleRecord\<lparr>Date := ''Unknown''\<rparr>] \<and>
   normalizeDate sampleHost (JNum 20240105) = Inr ''+057315-07'' \<and>
   normalizeDate sampleHost (JNum 200000000) = Inl RangeError \<and>
   normalizeDate sampleHost (JStr '''') = Inr ''Unknown''"
  by code_simp

theorem normalizeDate_rendering_witness:
  "getVal sampleHost serialRow datePatterns = JNum 45292 \<and>
   civilFromDays (45292 - 25569) = (2024, 1, 1) \<and>
   normalizeData sampleHost [serialRow] = Inr [saleRecord\<lparr>Date := ''2024-01-01''\<rparr>] \<and>
   (\<exists>r. normalizeRow sampleHost serialRow = Inr r \<and> Date r = ''2024-01-01'' \<and> isYMD (Date r))"
proof -
  have v: "getVal sampleHost serialRow datePatterns = JNum (of_int 45292)"
    by code_simp
  have c: "civilFromDays (45292 - 25569) = (2024, 1, 1)"
    by code_simp
  have run: "normalizeData sampleHost [serialRow] = Inr [saleRecord\<lparr>Date := ''2024-01-01''\<rparr>]"
    by code_simp
  have s: "ymdString (2024, 1, 1) = ''2024-01-01''"
    by code_simp
  from normalizeDate_rendering [OF v] c
  have "\<exists>r. normalizeRow sampleHost serialRow = Inr r \<and>
            Date r = ymdString (civilFromDays (45292 - 25569)) \<and> isYMD (Date r)"
    by simp
  with v c run s show ?thesis by simp
qed

section \<open>Properties of the forecast\<close>

text \<open>
  Claim C5. \<^verbatim>\<open>forecastNextMonth\<close> has a result on every series (the source has no
  \<^verbatim>\<open>throw\<close>, and its two indexed reads are under the guard \<^verbatim>\<open>revenues.length >= 2\<close>):
  on the empty series it is the all-zero result with trend STABLE and confidence LOW; on a
  non-empty series the confidence is HIGH from 6 months on, LOW below 3 months and MEDIUM
  otherwise; so fewer than 3 months always give confidence LOW.
\<close>

theorem forecastNextMonth_confidence:
  "(seasonality = [] \<longrightarrow>
      forecastNextMonth seasonality =
        \<lparr> nextMonthRevenue = 0, nextMonthQty = 0, trend = STABLE, trendPercent = 0,
          confidence = LOW, forecastMethod = noHistory \<rparr>) \<and>
   (seasonality \<noteq> [] \<longrightarrow>
      confidence (forecastNextMonth seasonality) =
        (if length seasonality \<ge> 6 then HIGH else if length seasonality < 3 then LOW else MEDIUM)) \<and>
   (length seasonality < 3 \<longrightarrow> confidence (forecastNextMonth seasonality) = LOW)"
  by (simp add: forecastNextMonth_def Let_def)

theorem forecastNextMonth_confidence_witness:
  "confidence (forecastNextMonth []) = LOW \<and>
   trend (forecastNextMonth []) = STABLE \<and>
   confidence (forecastNextMonth [monthRow ''2024-01'' 3 60000, monthRow ''2024-02'' 1 15000]) = LOW \<and>
   confidence (forecastNextMonth (replicate 4 (monthRow ''2024-01'' 3 60000))) = MEDIUM \<and>
   confidence (forecastNextMonth (replicate 6 (monthRow ''2024-01'' 3 60000))) = HIGH"
  using forecastNextMonth_confidence [of "[]"]
    forecastNextMonth_confidence [of "[monthRow ''2024-01'' 3 60000, monthRow ''2024-02'' 1 15000]"]
    forecastNextMonth_confidence [of "replicate 4 (monthRow ''2024-01'' 3 60000)"]
    forecastNextMonth_confidence [of "replicate 6 (monthRow ''2024-01'' 3 60000)"]
  by simp

section \<open>Maps in insertion order and the stable sort\<close>

lemma keys_mapUpdate: "map fst (mapUpdate k f m) = map fst m"
  by (induction m) auto

lemma map_of_mapUpdate:
  "map_of (mapUpdate k f m) k' = (if k' = k then map_option f (map_of m k) else map_of m k')"
  by (induction m) auto

lemma keys_upsert:
  "map fst (upsert k i f m) = (if k \<in> set (map fst m) then map fst m else map fst m @ [k])"
  by (simp add: upsert_def mapHas_def keys_mapUpdate)

lemma map_of_upsert:
  "map_of (upsert k i f m) k' =
     (if k' = k then Some (f (case map_of m k of None \<Rightarrow> i | Some v \<Rightarrow> v)) else map_of m k')"
proof (cases "k \<in> set (map fst m)")
  case True
  then obtain v where "map_of m k = Some v"
    by (metis map_of_eq_None_iff not_Some_eq set_map)
  with True show ?thesis
    by (simp add: upsert_def mapHas_def map_of_mapUpdate)
next
  case False
  then have "map_of m k = None"
    by (simp add: map_of_eq_None_iff)
  with False show ?thesis
    by (simp add: upsert_def mapHas_def map_of_mapUpdate map_add_def split: option.splits)
qed

lemma forEachGroup_snoc:
  "forEachGroup key init step (data @ [r]) =
     upsert (key r) (init r) (step r) (forEachGroup key init step data)"
  by (simp add: forEachGroup_def)

lemma forEachGroup_Nil: "forEachGroup key init step [] = []"
  by (simp add: forEachGroup_def)

lemma keys_forEachGroup: "set (map fst (forEachGroup key init step data)) = key ` set data"
  by (induction data rule: rev_induct) (auto simp: forEachGroup_Nil forEachGroup_snoc keys_upsert)

lemma distinct_forEachGroup: "distinct (map fst (forEachGroup key init step data))"
  by (induction data rule: rev_induct) (auto simp: forEachGroup_Nil forEachGroup_snoc keys_upsert)

lemma groupValue_snoc:
  "groupValue init step (rows @ [r]) =
     Some (step r (case groupValue init step rows of None \<Rightarrow> init r | Some v \<Rightarrow> v))"
  by (cases rows) (simp_all add: groupValue_def)

lemma map_of_forEachGroup:
  "map_of (forEachGroup key init step data) k =
     groupValue init step (filter (\<lambda>row. key row = k) data)"
proof (induction data rule: rev_induct)
  case Nil
  show ?case by (simp add: forEachGroup_Nil groupValue_def)
next
  case (snoc r data)
  show ?case
  proof (cases "key r = k")
    case True
    with snoc show ?thesis
      by (simp add: forEachGroup_snoc map_of_upsert groupValue_snoc)
  next
    case False
    with snoc show ?thesis
      by (simp add: forEachGroup_snoc map_of_upsert)
  qed
qed

lemma forEachGroup_entry:
  "(k, v) \<in> set (forEachGroup key init step data) \<longleftrightarrow>
     groupValue init step (filter (\<lambda>row. key row = k) data) = Some v"
  using distinct_forEachGroup [of key init step data]
  by (simp add: map_of_forEachGroup [symmetric])

subsection \<open>Sorting\<close>

lemma set_insertBy: "set (insertBy cmp x ys) = insert x (set ys)"
  by (induction ys) auto

lemma set_sortBy: "set (sortBy cmp xs) = set xs"
  by (induction xs) (auto simp: sortBy_def set_insertBy)

lemma insertBy_key: "insertBy (\<lambda>a b. f b - f a) x ys = insort_key (\<lambda>a. - f a) x ys"
  by (induction ys) auto

lemma sortBy_key: "sortBy (\<lambda>a b. f b - f a) xs = sort_key (\<lambda>a. - f a) xs"
  by (induction xs) (simp_all add: sortBy_def sort_key_def insertBy_key)

lemma sortBy_descending: "sorted_wrt (\<lambda>a b. f a \<ge> f b) (sortBy (\<lambda>a b. f b - f a) xs)"
proof -
  have "sorted (map (\<lambda>a. - f a) (sort_key (\<lambda>a. - f a) xs))"
    by (rule sorted_sort_key)
  then show ?thesis
    by (simp add: sortBy_key sorted_map)
qed



lemma length_insertBy: "length (insertBy cmp x ys) = Suc (length ys)"
  by (induction ys) auto

lemma length_sortBy: "length (sortBy cmp xs) = length xs"
  by (induction xs) (simp_all add: sortBy_def length_insertBy)

lemma mapUpdate_invariant:
  "\<forall>(k', v) \<in> set m. Q k' v \<Longrightarrow> (\<And>k' v. Q k' v \<Longrightarrow> Q k' (f v)) \<Longrightarrow>
   \<forall>(k', v) \<in> set (mapUpdate k f m). Q k' v"
  by (induction m) (auto split: if_splits)

lemma forEachGroup_invariant:
  assumes "\<And>r. Q (key r) (init r)" and "\<And>r k v. Q k v \<Longrightarrow> Q k (step r v)"
  shows "\<forall>(k, v) \<in> set (forEachGroup key init step data). Q k v"
proof (induction data rule: rev_induct)
  case Nil
  show ?case by (simp add: forEachGroup_Nil)
next
  case (snoc r data)
  let ?m = "forEachGroup key init step data"
  have "\<forall>(k', v) \<in> set (if mapHas ?m (key r) then ?m else ?m @ [(key r, init r)]). Q k' v"
    using snoc assms(1) by auto
  then show ?case
    unfolding forEachGroup_snoc upsert_def
    by (rule mapUpdate_invariant) (rule assms(2))
qed

section \<open>No phantom rows\<close>

lemma productName_assignABC: "map productName (assignABC c items) = map productName items"
  by (induction items arbitrary: c) (simp_all add: Let_def)

lemma productName_groupedPerformance:
  "(k, v) \<in> set (groupedPerformance data) \<Longrightarrow> productName v = k"
  using forEachGroup_invariant [of "\<lambda>k v. productName v = k" Product newPerformance addSale data]
  by (auto simp: groupedPerformance_def newPerformance_def addSale_def)

lemma products_analyzePerformance:
  "set (map productName (analyzePerformance data)) = Product ` set data"
proof -
  have "productName (withMetrics t v) = productName v" for t v
    by (simp add: withMetrics_def)
  then have "set (map productName (analyzePerformance data))
        = productName ` snd ` set (groupedPerformance data)"
    unfolding analyzePerformance_def Let_def productName_assignABC
    by (simp add: set_sortBy image_image)
  also have "\<dots> = fst ` set (groupedPerformance data)"
    using productName_groupedPerformance [of _ _ data] by force
  also have "\<dots> = Product ` set data"
    using keys_forEachGroup [of Product newPerformance addSale data]
    by (simp add: groupedPerformance_def)
  finally show ?thesis .
qed

lemma months_analyzeSeasonality:
  "month ` set (analyzeSeasonality js data) = monthOf ` set data"
proof -
  have "month ` set (analyzeSeasonality js data)
        = fst ` set (forEachGroup monthOf (\<lambda>row. (0, 0, [])) addToMonth data)"
    by (force simp: analyzeSeasonality_def set_sortBy seasonalityRow_def image_image split: prod.splits)
  then show ?thesis
    using keys_forEachGroup [of monthOf "\<lambda>row. (0, 0, [])" addToMonth data] by simp
qed

lemma brands_analyzeBrands: "brand ` set (analyzeBrands data) = Brand ` set data"
proof -
  have "brand ` set (analyzeBrands data)
        = fst ` set (forEachGroup Brand (\<lambda>row. (0, 0))
                       (\<lambda>row (revSum, count). (revSum + Amount row, count + Quantity row)) data)"
    by (force simp: analyzeBrands_def Let_def set_sortBy image_image split: prod.splits)
  then show ?thesis
    by (simp add: keys_forEachGroup flip: set_map)
qed

lemma bands_analyzePriceBands: "bandRange ` set (analyzePriceBands data) = priceBand ` set data"
proof -
  have "bandRange ` set (analyzePriceBands data)
        = fst ` set (forEachGroup priceBand (\<lambda>row. (0, 0))
                    (\<lambda>row (count, revSum). (count + Quantity row, revSum + Amount row)) data)"
    by (force simp: analyzePriceBands_def Let_def set_sortBy image_image split: prod.splits)
  then show ?thesis
    by (simp add: keys_forEachGroup flip: set_map)
qed

text \<open>
  Claim C9. On every subset \<open>sub\<close> of a non-empty record set, each aggregation produces only
  keys that a record of \<open>sub\<close> contributes: every product of \<^verbatim>\<open>analyzePerformance\<close>,
  every month of \<^verbatim>\<open>analyzeSeasonality\<close>, every brand of \<^verbatim>\<open>analyzeBrands\<close> and
  every price band of \<^verbatim>\<open>analyzePriceBands\<close> is the key of some record of \<open>sub\<close>.
\<close>

theorem no_phantom_rows:
  assumes "data \<noteq> []" and "set sub \<subseteq> set data"
  shows "(\<forall>p \<in> set (analyzePerformance sub). \<exists>r \<in> set sub. Product r = productName p) \<and>
         (\<forall>s \<in> set (analyzeSeasonality js sub). \<exists>r \<in> set sub. monthOf r = month s) \<and>
         (\<forall>b \<in> set (analyzeBrands sub). \<exists>r \<in> set sub. Brand r = brand b) \<and>
         (\<forall>b \<in> set (analyzePriceBands sub). \<exists>r \<in> set sub. priceBand r = bandRange b)"
proof -
  have "\<forall>p \<in> set (analyzePerformance sub). \<exists>r \<in> set sub. Product r = productName p"
    using products_analyzePerformance [of sub] by (metis (no_types) image_iff list.set_map)
  moreover have "\<forall>s \<in> set (analyzeSeasonality js sub). \<exists>r \<in> set sub. monthOf r = month s"
    using months_analyzeSeasonality [of js sub] by (metis (no_types) image_iff)
  moreover have "\<forall>b \<in> set (analyzeBrands sub). \<exists>r \<in> set sub. Brand r = brand b"
    using brands_analyzeBrands [of sub] by (metis (no_types) image_iff)
  moreover have "\<forall>b \<in> set (analyzePriceBands sub). \<exists>r \<in> set sub. priceBand r = bandRange b"
    using bands_analyzePriceBands [of sub] by (metis (no_types) image_iff)
  ultimately show ?thesis by blast
qed

theorem no_phantom_rows_witness:
  "exampleData \<noteq> [] \<and> set exampleSubset \<subseteq> set exampleData \<and>
   map productName (analyzePerformance exampleSubset) = [''Sony TV''] \<and>
   productName (hd (analyzePerformance exampleSubset)) \<in> Product ` set exampleSubset \<and>
   month (hd (analyzeSeasonality sampleHost exampleSubset)) \<in> monthOf ` set exampleSubset \<and>
   brand (hd (analyzeBrands exampleSubset)) \<in> Brand ` set exampleSubset \<and>
   bandRange (hd (analyzePriceBands exampleSubset)) \<in> priceBand ` set exampleSubset"
proof -
  have ne: "exampleData \<noteq> []"
    by (simp add: exampleData_def)
  have sub: "set exampleSubset \<subseteq> set exampleData"
    by (simp add: exampleData_def exampleSubset_def)
  have products: "map productName (analyzePerformance exampleSubset) = [''Sony TV'']"
    by code_simp
  then have p: "hd (analyzePerformance exampleSubset) \<in> set (analyzePerformance exampleSubset)"
    by (cases "analyzePerformance exampleSubset") simp_all
  have "length (analyzeSeasonality sampleHost exampleSubset) = 1"
    by code_simp
  then have s: "hd (analyzeSeasonality sampleHost exampleSubset)
                 \<in> set (analyzeSeasonality sampleHost exampleSubset)"
    by (cases "analyzeSeasonality sampleHost exampleSubset") simp_all
  have "length (analyzeBrands exampleSubset) = 1"
    by code_simp
  then have b: "hd (analyzeBrands exampleSubset) \<in> set (analyzeBrands exampleSubset)"
    by (cases "analyzeBrands exampleSubset") simp_all
  have "length (analyzePriceBands exampleSubset) = 1"
    by code_simp
  then have pb: "hd (analyzePriceBands exampleSubset) \<in> set (analyzePriceBands exampleSubset)"
    by (cases "analyzePriceBands exampleSubset") simp_all
  from no_phantom_rows [OF ne sub, of sampleHost] p s b pb
  have "productName (hd (analyzePerformance exampleSubset)) \<in> Product ` set exampleSubset"
    and "month (hd (analyzeSeasonality sampleHost exampleSubset)) \<in> monthOf ` set exampleSubset"
    and "brand (hd (analyzeBrands exampleSubset)) \<in> Brand ` set exampleSubset"
    and "bandRange (hd (analyzePriceBands exampleSubset)) \<in> priceBand ` set exampleSubset"
    by (metis (no_types) image_iff)+
  with ne sub products show ?thesis by blast
qed

section \<open>The ABC analysis\<close>









subsection \<open>The walk of the ABC classes\<close>









section \<open>The profit margin\<close>

lemma sortBy_Nil_iff: "sortBy cmp xs = [] \<longleftrightarrow> xs = []"
  using length_sortBy [of cmp xs] by (metis length_0_conv)

text \<open>
  A comparator whose sign is that of the exact difference of a key sorts as the exact
  difference does.
\<close>

lemma insertBy_sign:
  assumes "\<forall>y \<in> set ys. (cmp x y \<le> 0) = (f y \<le> f x)"
  shows "insertBy cmp x ys = insertBy (\<lambda>a b. f b - f a) x ys"
  using assms by (induction ys) simp_all

lemma sortBy_sign:
  assumes "\<forall>x \<in> set xs. \<forall>y \<in> set xs. (cmp x y \<le> 0) = (f y \<le> f x)"
  shows "sortBy cmp xs = sortBy (\<lambda>a b. f b - f a) xs"
  using assms
proof (induction xs)
  case Nil
  show ?case by (simp add: sortBy_def)
next
  case (Cons x xs)
  have step: "sortBy c (x # xs) = insertBy c x (sortBy c xs)" for c :: "'a \<Rightarrow> 'a \<Rightarrow> real"
    by (simp add: sortBy_def)
  from Cons.prems have "\<forall>a \<in> set xs. \<forall>b \<in> set xs. (cmp a b \<le> 0) = (f b \<le> f a)"
    by simp
  then have rest: "sortBy cmp xs = sortBy (\<lambda>a b. f b - f a) xs"
    by (rule Cons.IH)
  from Cons.prems have "\<forall>y \<in> set (sortBy (\<lambda>a b. f b - f a) xs). (cmp x y \<le> 0) = (f y \<le> f x)"
    by (simp add: set_sortBy)
  then have "insertBy cmp x (sortBy (\<lambda>a b. f b - f a) xs)
      = insertBy (\<lambda>a b. f b - f a) x (sortBy (\<lambda>a b. f b - f a) xs)"
    by (rule insertBy_sign)
  then show ?case
    by (simp add: step rest)
qed

lemma sortBy_signFaithful:
  assumes "signFaithful ar (f ` set xs)"
  shows "sorted_wrt (\<lambda>a b. f a \<ge> f b) (sortBy (\<lambda>a b. fsub ar (f b) (f a)) xs)"
proof -
  from assms have "\<forall>x \<in> set xs. \<forall>y \<in> set xs. (fsub ar (f y) (f x) \<le> 0) = (f y \<le> f x)"
    by (simp add: signFaithful_def)
  then have "sortBy (\<lambda>a b. fsub ar (f b) (f a)) xs = sortBy (\<lambda>a b. f b - f a) xs"
    by (rule sortBy_sign)
  then show ?thesis
    by (simp add: sortBy_descending)
qed

lemma signFaithful_exactArith: "signFaithful exactArith S"
  by (simp add: signFaithful_def exactArith_def)

lemma profit_fold:
  "foldl (\<lambda>v row. (\<lambda>(revSum, cost, cat).
             (fadd ar revSum (Amount row),
              fadd ar cost (fmul ar (costOrZero row) (Quantity row)), cat)) v)
      (r0, c0, cat0) rows
   = (foldl (\<lambda>a b. fadd ar a b) r0 (map Amount rows),
      foldl (\<lambda>c r. fadd ar c (fmul ar (costOrZero r) (Quantity r))) c0 rows, cat0)"
  by (induction rows arbitrary: r0 c0) simp_all

lemma profit_entry:
  assumes "(k, revSum, cost, cat) \<in> set (forEachGroup Product (\<lambda>row. (0, 0, Category row))
                            (\<lambda>row (revSum, cost, cat).
                               (fadd ar revSum (Amount row),
                                fadd ar cost (fmul ar (costOrZero row) (Quantity row)), cat)) data)"
  shows "revSum = productRevenue ar data k \<and> cost = productCost ar data k \<and> k \<in> Product ` set data"
proof -
  let ?step = "\<lambda>row (revSum, cost, cat).
                 (fadd ar revSum (Amount row),
                  fadd ar cost (fmul ar (costOrZero row) (Quantity row)), cat)"
  from assms have "groupValue (\<lambda>row. (0, 0, Category row)) ?step (filter (\<lambda>r. Product r = k) data)
      = Some (revSum, cost, cat)"
    by (simp add: forEachGroup_entry)
  then have "revSum = productRevenue ar data k \<and> cost = productCost ar data k"
    by (auto simp: groupValue_def profit_fold productRevenue_def productCost_def
        simp del: foldl_Cons split: list.splits)
  moreover have "k \<in> Product ` set data"
    using assms keys_forEachGroup [of Product "\<lambda>row. (0, 0, Category row)" ?step data]
    by (metis (no_types, lifting) fst_conv image_eqI list.set_map)
  ultimately show ?thesis by blast
qed

text \<open>
  Claim C6, as amended. Whatever the arithmetic of the host, \<^verbatim>\<open>analyzeProfitMargin\<close>
  returns the empty list if and only if no record carries a defined, positive cost or no
  product has a positive total revenue. Every entry of the result has a positive total
  revenue, which is the sum of the amounts of the product's records, a total cost that is
  the sum of unit cost times quantity, and the margin percent that the host computes as
  \<^verbatim>\<open>Math.round(((revenue - cost) / revenue) * 1000) / 10\<close>: the rounding to one decimal
  is that of the host's product with 1000 and quotient by 10, not that of the exact margin.
  The entries are sorted descending by margin percent where the host's difference of two
  margins has the sign of the exact one, as it has for IEEE doubles.
\<close>

theorem analyzeProfitMargin_result:
  "(analyzeProfitMargin ar data = [] \<longleftrightarrow>
      \<not> (\<exists>r \<in> set data. hasPositiveCost r) \<or>
      (\<forall>p \<in> Product ` set data. productRevenue ar data p \<le> 0)) \<and>
   (\<forall>e \<in> set (analyzeProfitMargin ar data).
      totalRevenue e > 0 \<and>
      totalRevenue e = productRevenue ar data (productName e) \<and>
      totalCost e = productCost ar data (productName e) \<and>
      marginPercent e =
        fdiv ar (mathRound (fmul ar (fdiv ar (fsub ar (totalRevenue e) (totalCost e))
                                       (totalRevenue e)) 1000)) 10) \<and>
   (signFaithful ar (marginPercent ` set (analyzeProfitMargin ar data)) \<longrightarrow>
      sorted_wrt (\<lambda>a b. marginPercent a \<ge> marginPercent b) (analyzeProfitMargin ar data))"
proof -
  let ?step = "\<lambda>row (revSum, cost, cat).
                 (fadd ar revSum (Amount row),
                  fadd ar cost (fmul ar (costOrZero row) (Quantity row)), cat)"
  let ?margin = "\<lambda>e. fdiv ar (mathRound (fmul ar (fdiv ar (fsub ar (totalRevenue e) (totalCost e))
                                       (totalRevenue e)) 1000)) 10"
  define productMap where "productMap = forEachGroup Product (\<lambda>row. (0, 0, Category row)) ?step data"
  define rows where "rows = filter (\<lambda>p. totalRevenue p > 0) (map (profitRow ar) productMap)"
  have out: "analyzeProfitMargin ar data =
      (if \<not> (\<exists>r \<in> set data. hasPositiveCost r) then []
       else sortBy (\<lambda>a b. fsub ar (marginPercent b) (marginPercent a)) rows)"
    by (simp add: analyzeProfitMargin_def productMap_def rows_def)
  have entry: "revSum = productRevenue ar data k \<and> cost = productCost ar data k \<and> k \<in> Product ` set data"
    if "(k, revSum, cost, cat) \<in> set productMap" for k revSum cost cat
    using that unfolding productMap_def by (rule profit_entry)
  have keys: "fst ` set productMap = Product ` set data"
    using keys_forEachGroup [of Product "\<lambda>row. (0, 0, Category row)" ?step data]
    by (simp add: productMap_def)

  have rows_empty: "rows = [] \<longleftrightarrow> (\<forall>p \<in> Product ` set data. productRevenue ar data p \<le> 0)"
  proof
    assume empty: "rows = []"
    show "\<forall>p \<in> Product ` set data. productRevenue ar data p \<le> 0"
    proof
      fix p assume "p \<in> Product ` set data"
      with keys obtain revSum cost cat where e: "(p, revSum, cost, cat) \<in> set productMap"
        by (metis (no_types, opaque_lifting) fst_conv imageE prod.collapse)
      with empty have "\<not> totalRevenue (profitRow ar (p, revSum, cost, cat)) > 0"
        by (auto simp: rows_def filter_empty_conv)
      with entry [OF e] show "productRevenue ar data p \<le> 0"
        by (simp add: profitRow_def)
    qed
  next
    assume nonpos: "\<forall>p \<in> Product ` set data. productRevenue ar data p \<le> 0"
    have "\<not> totalRevenue (profitRow ar e) > 0" if "e \<in> set productMap" for e
    proof -
      obtain k revSum cost cat where e: "e = (k, revSum, cost, cat)"
        by (cases e) auto
      from entry [of k revSum cost cat] that e nonpos show ?thesis
        by (auto simp: profitRow_def)
    qed
    then show "rows = []"
      by (auto simp: rows_def filter_empty_conv)
  qed

  have row_fields: "totalRevenue e > 0 \<and>
      totalRevenue e = productRevenue ar data (productName e) \<and>
      totalCost e = productCost ar data (productName e) \<and>
      marginPercent e = ?margin e"
    if "e \<in> set rows" for e
  proof -
    from that obtain k revSum cost cat where kv: "(k, revSum, cost, cat) \<in> set productMap"
      and e: "e = profitRow ar (k, revSum, cost, cat)" and pos: "totalRevenue e > 0"
      by (auto simp: rows_def)
    from entry [OF kv] e pos show ?thesis
      by (simp add: profitRow_def)
  qed

  show ?thesis
  proof (cases "\<exists>r \<in> set data. hasPositiveCost r")
    case False
    then show ?thesis by (simp add: out)
  next
    case True
    then have eq: "analyzeProfitMargin ar data
        = sortBy (\<lambda>a b. fsub ar (marginPercent b) (marginPercent a)) rows"
      by (simp add: out)
    have "signFaithful ar (marginPercent ` set (analyzeProfitMargin ar data)) \<longrightarrow>
        sorted_wrt (\<lambda>a b. marginPercent a \<ge> marginPercent b) (analyzeProfitMargin ar data)"
      unfolding eq set_sortBy by (rule impI) (rule sortBy_signFaithful)
    moreover have "analyzeProfitMargin ar data = [] \<longleftrightarrow>
        \<not> (\<exists>r \<in> set data. hasPositiveCost r) \<or>
        (\<forall>p \<in> Product ` set data. productRevenue ar data p \<le> 0)"
      using True rows_empty by (simp add: eq sortBy_Nil_iff)
    moreover have "\<forall>e \<in> set (analyzeProfitMargin ar data).
        totalRevenue e > 0 \<and>
        totalRevenue e = productRevenue ar data (productName e) \<and>
        totalCost e = productCost ar data (productName e) \<and>
        marginPercent e = ?margin e"
      unfolding eq set_sortBy using row_fields by blast
    ultimately show ?thesis by blast
  qed
qed

text \<open>
  Claim C6 as stated fails: a gift record with a positive unit cost and amount 0 is the whole
  data set; a record carries a positive cost, yet the result is empty, since the only product
  has no revenue. The numbers of the example are small integers, on which IEEE arithmetic
  and exact arithmetic agree.
\<close>

theorem analyzeProfitMargin_counterexample:
  "analyzeProfitMargin exactArith [giftSale] = [] \<and> hasPositiveCost giftSale"
  by (simp add: analyzeProfitMargin_def forEachGroup_def upsert_def mapHas_def giftSale_def
      hasPositiveCost_def costOrZero_def profitRow_def exactArith_def sortBy_def Let_def)

theorem analyzeProfitMargin_result_witness:
  "hasPositiveCost (hd costedData) \<and>
   analyzeProfitMargin exactArith costedData \<noteq> [] \<and>
   map productName (analyzeProfitMargin exactArith costedData) = [''LG Fridge X'', ''Sony TV''] \<and>
   map marginPercent (analyzeProfitMargin exactArith costedData) = [50, 25] \<and>
   totalRevenue (hd (analyzeProfitMargin exactArith costedData)) = 40000 \<and>
   totalCost (hd (analyzeProfitMargin exactArith costedData)) = 20000 \<and>
   sorted_wrt (\<lambda>a b. marginPercent a \<ge> marginPercent b) (analyzeProfitMargin exactArith costedData)"
proof -
  let ?out = "analyzeProfitMargin exactArith costedData"
  have cost: "hasPositiveCost (hd costedData)"
    by (simp add: costedData_def sale_def hasPositiveCost_def)
  have member: "hd costedData \<in> set costedData"
    by (simp add: costedData_def)
  have product: "''Sony TV'' \<in> Product ` set costedData"
    by (simp add: costedData_def sale_def)
  have revenue: "\<not> productRevenue exactArith costedData ''Sony TV'' \<le> 0"
    by (simp add: productRevenue_def costedData_def sale_def giftSale_def exactArith_def)
  have lg_revenue: "productRevenue exactArith costedData ''LG Fridge X'' = 40000"
    by (simp add: productRevenue_def costedData_def sale_def giftSale_def exactArith_def)
  have lg_cost: "productCost exactArith costedData ''LG Fridge X'' = 20000"
    by (simp add: productCost_def costedData_def sale_def giftSale_def exactArith_def costOrZero_def)
  have names: "map productName ?out = [''LG Fridge X'', ''Sony TV'']"
    by (simp add: analyzeProfitMargin_def forEachGroup_def upsert_def mapHas_def costedData_def
        sale_def giftSale_def hasPositiveCost_def costOrZero_def profitRow_def exactArith_def
        sortBy_def mathRound_def Let_def)
  have margins: "map marginPercent ?out = [50, 25]"
    by (simp add: analyzeProfitMargin_def forEachGroup_def upsert_def mapHas_def costedData_def
        sale_def giftSale_def hasPositiveCost_def costOrZero_def profitRow_def exactArith_def
        sortBy_def mathRound_def Let_def)
  have faithful: "signFaithful exactArith (marginPercent ` set ?out)"
    by (rule signFaithful_exactArith)
  note result = analyzeProfitMargin_result [of exactArith costedData]
  from result cost member product revenue have nonempty: "?out \<noteq> []"
    by blast
  from result faithful have sorted: "sorted_wrt (\<lambda>a b. marginPercent a \<ge> marginPercent b) ?out"
    by blast
  from nonempty have hd: "hd ?out \<in> set ?out"
    by simp
  from names have name: "productName (hd ?out) = ''LG Fridge X''"
    by (cases ?out) simp_all
  from result hd have "totalRevenue (hd ?out) = productRevenue exactArith costedData (productName (hd ?out))"
    and "totalCost (hd ?out) = productCost exactArith costedData (productName (hd ?out))"
    by blast+
  then have "totalRevenue (hd ?out) = 40000" and "totalCost (hd ?out) = 20000"
    by (simp_all add: name lg_revenue lg_cost)
  with cost nonempty names margins sorted show ?thesis
    by simp
qed

section \<open>Slow-moving products\<close>

lemma lastSale_fold:
  "foldl (\<lambda>v row. (\<lambda>(lastSale, qtySum, cat).
            (if Date row > lastSale then Date row else lastSale, qtySum + Quantity row, cat)) v)
      (l0, q0, c0) rows
   = (foldl max l0 (map Date rows), q0 + sum_list (map Quantity rows), c0)"
  by (induction rows arbitrary: l0 q0) (auto simp: max_def)

lemma foldl_max_ge: "l0 \<le> foldl max l0 ds" and foldl_max_upper: "\<forall>d \<in> set ds. d \<le> foldl max l0 ds"
  and foldl_max_mem: "foldl max l0 ds \<in> insert l0 (set ds)"
  for l0 :: "'a::linorder"
proof -
  have "l0 \<le> foldl max l0 ds \<and> (\<forall>d \<in> set ds. d \<le> foldl max l0 ds) \<and> foldl max l0 ds \<in> insert l0 (set ds)"
  proof (induction ds arbitrary: l0)
    case Nil
    show ?case by simp
  next
    case (Cons d ds)
    from Cons [of "max l0 d"] show ?case
      by (auto simp: max_def split: if_splits)
  qed
  then show "l0 \<le> foldl max l0 ds" and "\<forall>d \<in> set ds. d \<le> foldl max l0 ds"
    and "foldl max l0 ds \<in> insert l0 (set ds)"
    by blast+
qed

text \<open>The entry of a product in \<open>lastSales\<close>: its greatest date string.\<close>

lemma lastSales_entry:
  assumes "(p, lastSale, qtySum, cat) \<in> set (lastSales data)"
  shows "(\<exists>r \<in> set data. Product r = p \<and> Date r = lastSale) \<and>
         (\<forall>r \<in> set data. Product r = p \<longrightarrow> Date r \<le> lastSale)"
proof -
  let ?rows = "filter (\<lambda>r. Product r = p) data"
  from assms have "groupValue (\<lambda>row. (Date row, 0, Category row))
      (\<lambda>row (lastSale, qtySum, cat).
          (if Date row > lastSale then Date row else lastSale, qtySum + Quantity row, cat)) ?rows
      = Some (lastSale, qtySum, cat)"
    by (simp add: lastSales_def forEachGroup_entry)
  then obtain r0 rs where rows: "?rows = r0 # rs"
    and l: "lastSale = foldl max (Date r0) (map Date (r0 # rs))"
    by (auto simp: groupValue_def lastSale_fold simp del: foldl_Cons split: list.splits)
  have "lastSale \<in> insert (Date r0) (set (map Date (r0 # rs)))"
    unfolding l by (rule foldl_max_mem)
  then have "lastSale \<in> Date ` set ?rows"
    by (auto simp: rows)
  then have 1: "\<exists>r \<in> set data. Product r = p \<and> Date r = lastSale"
    by auto
  have "\<forall>d \<in> set (map Date (r0 # rs)). d \<le> lastSale"
    unfolding l by (rule foldl_max_upper)
  then have "\<forall>r \<in> set ?rows. Date r \<le> lastSale"
    by (simp add: rows)
  then have 2: "\<forall>r \<in> set data. Product r = p \<longrightarrow> Date r \<le> lastSale"
    by simp
  from 1 2 show ?thesis by blast
qed

lemma lastSales_has_product:
  assumes "r \<in> set data"
  shows "\<exists>lastSale qtySum cat. (Product r, lastSale, qtySum, cat) \<in> set (lastSales data)"
proof -
  have "set (map fst (lastSales data)) = Product ` set data"
    unfolding lastSales_def by (rule keys_forEachGroup)
  with assms have "Product r \<in> fst ` set (lastSales data)"
    by auto
  then show ?thesis by force
qed

lemma lastSales_unique:
  assumes "(p, e) \<in> set (lastSales data)" and "(p, e') \<in> set (lastSales data)"
  shows "e = e'"
proof -
  have d: "distinct (map fst (lastSales data))"
    unfolding lastSales_def by (rule distinct_forEachGroup)
  from map_of_is_SomeI [OF d assms(1)] map_of_is_SomeI [OF d assms(2)]
  show ?thesis by simp
qed

text \<open>What the loop pushes for one product.\<close>

lemma alertFor_member:
  assumes "a \<in> set (alertFor js lastRecord thresholdDays (p, lastSale, qtySum, cat))"
  shows "productName a = p \<and> lastSaleDate a = lastSale \<and>
         ceilDaysBetween lastRecord (newDate js (JStr lastSale)) = Finite (daysSinceLastSale a) \<and>
         thresholdDays \<le> daysSinceLastSale a \<and>
         riskLevel a = (if 60 \<le> daysSinceLastSale a then HIGH
                        else if 30 \<le> daysSinceLastSale a then MEDIUM else LOW) \<and>
         recommendation a = (if 60 \<le> daysSinceLastSale a then adviceHigh
                             else if 30 \<le> daysSinceLastSale a then adviceMedium else adviceLow)"
  using assms by (auto simp: alertFor_def split: jsnum.splits if_splits)

lemma detectSlowMoving_member:
  assumes "a \<in> set (detectSlowMoving js data thresholdDays)"
  shows "\<exists>lastSale qtySum cat. (productName a, lastSale, qtySum, cat) \<in> set (lastSales data) \<and>
           a \<in> set (alertFor js (lastObservedDate js data) thresholdDays
                      (productName a, lastSale, qtySum, cat))"
proof -
  define dates where "dates = sort (filter (\<lambda>d. d \<noteq> ''Unknown'') (map Date data))"
  have unfold: "detectSlowMoving js data thresholdDays =
      (if length dates = 0 then []
       else sortBy (\<lambda>a b. daysSinceLastSale b - daysSinceLastSale a)
              (concat (map (alertFor js (newDate js (JStr (dates ! (length dates - 1)))) thresholdDays)
                         (lastSales data))))"
    unfolding detectSlowMoving_def Let_def dates_def by (rule refl)
  from assms have ne: "dates \<noteq> []"
    unfolding unfold by (cases "dates = []") simp_all
  then have "dates ! (length dates - 1) = last dates"
    by (simp add: last_conv_nth)
  then have last: "newDate js (JStr (dates ! (length dates - 1))) = lastObservedDate js data"
    by (simp add: lastObservedDate_def dates_def)
  from assms ne have "a \<in> set (concat (map (alertFor js (lastObservedDate js data) thresholdDays)
                                     (lastSales data)))"
    unfolding unfold last by (simp add: set_sortBy del: set_concat)
  then obtain e where e: "e \<in> set (lastSales data)"
    and a: "a \<in> set (alertFor js (lastObservedDate js data) thresholdDays e)"
    by auto
  obtain p lastSale qtySum cat where pe: "e = (p, lastSale, qtySum, cat)"
    by (cases e) auto
  from a pe have "productName a = p"
    using alertFor_member by blast
  with e a pe show ?thesis by blast
qed

text \<open>
  Claim C4. With the default threshold of 30 days every alert of \<^verbatim>\<open>detectSlowMoving\<close>
  is for a product whose days since its last sale are at least 30, where the last sale is the
  greatest date string among the product's records and the days are counted up to the last
  observed date; the alert has risk level HIGH with the advice to liquidate or halt reorder
  when the days are at least 60, and MEDIUM with the advice to promote or discount otherwise.
  No alert has risk level LOW.
\<close>

theorem detectSlowMoving_default_threshold:
  "\<forall>a \<in> set (detectSlowMoving js data 30).
      30 \<le> daysSinceLastSale a \<and>
      ceilDaysBetween (lastObservedDate js data) (newDate js (JStr (lastSaleDate a)))
        = Finite (daysSinceLastSale a) \<and>
      (\<exists>r \<in> set data. Product r = productName a \<and> Date r = lastSaleDate a) \<and>
      (\<forall>r \<in> set data. Product r = productName a \<longrightarrow> Date r \<le> lastSaleDate a) \<and>
      riskLevel a = (if 60 \<le> daysSinceLastSale a then HIGH else MEDIUM) \<and>
      recommendation a = (if 60 \<le> daysSinceLastSale a then adviceHigh else adviceMedium) \<and>
      (riskLevel a = HIGH \<or> riskLevel a = MEDIUM)"
proof
  fix a assume "a \<in> set (detectSlowMoving js data 30)"
  from detectSlowMoving_member [OF this] obtain lastSale qtySum cat
    where e: "(productName a, lastSale, qtySum, cat) \<in> set (lastSales data)"
      and a: "a \<in> set (alertFor js (lastObservedDate js data) 30 (productName a, lastSale, qtySum, cat))"
    by blast
  note m = alertFor_member [OF a]
  from m have l: "lastSaleDate a = lastSale" by blast
  from lastSales_entry [OF e] l
  have "(\<exists>r \<in> set data. Product r = productName a \<and> Date r = lastSaleDate a) \<and>
        (\<forall>r \<in> set data. Product r = productName a \<longrightarrow> Date r \<le> lastSaleDate a)"
    by simp
  moreover from m l have "30 \<le> daysSinceLastSale a"
    and "ceilDaysBetween (lastObservedDate js data) (newDate js (JStr (lastSaleDate a)))
        = Finite (daysSinceLastSale a)"
    and "riskLevel a = (if 60 \<le> daysSinceLastSale a then HIGH else MEDIUM)"
    and "recommendation a = (if 60 \<le> daysSinceLastSale a then adviceHigh else adviceMedium)"
    by auto
  ultimately show "30 \<le> daysSinceLastSale a \<and>
      ceilDaysBetween (lastObservedDate js data) (newDate js (JStr (lastSaleDate a)))
        = Finite (daysSinceLastSale a) \<and>
      (\<exists>r \<in> set data. Product r = productName a \<and> Date r = lastSaleDate a) \<and>
      (\<forall>r \<in> set data. Product r = productName a \<longrightarrow> Date r \<le> lastSaleDate a) \<and>
      riskLevel a = (if 60 \<le> daysSinceLastSale a then HIGH else MEDIUM) \<and>
      recommendation a = (if 60 \<le> daysSinceLastSale a then adviceHigh else adviceMedium) \<and>
      (riskLevel a = HIGH \<or> riskLevel a = MEDIUM)"
    by simp
qed


theorem detectSlowMoving_default_threshold_witness:
  "map productName (detectSlowMoving sampleHost slowData 30) = [''LG Fridge X'', ''Desk fan''] \<and>
   map daysSinceLastSale (detectSlowMoving sampleHost slowData 30) = [91, 41] \<and>
   map riskLevel (detectSlowMoving sampleHost slowData 30) = [HIGH, MEDIUM] \<and>
   30 \<le> daysSinceLastSale (hd (detectSlowMoving sampleHost slowData 30)) \<and>
   recommendation (hd (detectSlowMoving sampleHost slowData 30)) = adviceHigh"
proof -
  have names: "map productName (detectSlowMoving sampleHost slowData 30) = [''LG Fridge X'', ''Desk fan'']"
    by code_simp
  have days: "map daysSinceLastSale (detectSlowMoving sampleHost slowData 30) = [91, 41]"
    by code_simp
  have levels: "map riskLevel (detectSlowMoving sampleHost slowData 30) = [HIGH, MEDIUM]"
    by code_simp
  from names have "hd (detectSlowMoving sampleHost slowData 30) \<in> set (detectSlowMoving sampleHost slowData 30)"
    by (cases "detectSlowMoving sampleHost slowData 30") simp_all
  with detectSlowMoving_default_threshold [of sampleHost slowData]
  have "30 \<le> daysSinceLastSale (hd (detectSlowMoving sampleHost slowData 30))"
    and "recommendation (hd (detectSlowMoving sampleHost slowData 30))
         = (if 60 \<le> daysSinceLastSale (hd (detectSlowMoving sampleHost slowData 30))
            then adviceHigh else adviceMedium)"
    by blast+
  moreover from days have "daysSinceLastSale (hd (detectSlowMoving sampleHost slowData 30)) = 91"
    by (cases "detectSlowMoving sampleHost slowData 30") simp_all
  ultimately show ?thesis
    using names days levels by simp
qed


lemma isDigit_less_U: "isDigit c \<Longrightarrow> c < CHR ''U''"
  by (auto simp: isDigit_def)

lemma isYMD_less_Unknown:
  assumes "isYMD s"
  shows "s < ''Unknown''"
proof -
  from assms obtain c cs where s: "s = c # cs"
    by (cases s) (auto simp: isYMD_def)
  with assms have "isDigit c"
    by (simp add: isYMD_def)
  then have "c < CHR ''U''"
    by (rule isDigit_less_U)
  with s show ?thesis by simp
qed

lemma yearString_first: "\<exists>c cs. yearString y = c # cs \<and> c < CHR ''U''"
proof (cases "0 \<le> y \<and> y \<le> 9999")
  case True
  then have "yearString y = digitChar (y div 10 div 10 div 10) #
      [digitChar (y div 10 div 10), digitChar (y div 10), digitChar y]"
    by (simp add: yearString_def padDigits_4)
  moreover have "digitChar (y div 10 div 10 div 10) < CHR ''U''"
    using isDigit_digitChar by (rule isDigit_less_U)
  ultimately show ?thesis by blast
next
  case False
  then show ?thesis
    by (auto simp: yearString_def)
qed

lemma isoDay_less_Unknown:
  assumes "isoDay d = Inr s"
  shows "s < ''Unknown''"
proof -
  from assms obtain t where s: "s = take 10 (toISOString t)"
    by (auto simp: isoDay_def split: option.splits)
  obtain y m dd where c: "civilFromDays (t div 86400000) = (y, m, dd)"
    by (cases "civilFromDays (t div 86400000)") auto
  from yearString_first [of y] obtain ch cs where "yearString y = ch # cs" and "ch < CHR ''U''"
    by blast
  then show ?thesis
    by (simp add: s toISOString_def Let_def c)
qed

lemma normalizeDate_form:
  assumes "normalizeDate js v = Inr s"
  shows "s \<le> ''Unknown'' \<or> dateParse js s = None"
proof (cases "truthy v")
  case False
  with assms show ?thesis by (simp add: normalizeDate_def)
next
  case True
  show ?thesis
  proof (cases v)
    case (JNum x)
    with assms True have "isoDay (newDate js (JNum ((x - (25567 + 2)) * 86400 * 1000))) = Inr s"
      by (simp add: normalizeDate_def)
    then have "s < ''Unknown''" by (rule isoDay_less_Unknown)
    then show ?thesis by (blast intro: less_imp_le)
  next
    case (JStr s0)
    show ?thesis
    proof (cases "dateParse js s0")
      case None
      with assms True JStr show ?thesis by (simp add: normalizeDate_def Let_def)
    next
      case (Some t)
      with assms True JStr have "isoDay (Some t) = Inr s"
        by (simp add: normalizeDate_def Let_def)
      then have "s < ''Unknown''" by (rule isoDay_less_Unknown)
      then show ?thesis by (blast intro: less_imp_le)
    qed
  next
    case (JBool b)
    with assms True have "isoDay (Some 1) = Inr s"
      by (simp add: normalizeDate_def Let_def)
    then have "s < ''Unknown''" by (rule isoDay_less_Unknown)
    then show ?thesis by (blast intro: less_imp_le)
  qed (use True in simp_all)
qed

lemma set_mapM: "mapM f xs = Inr ys \<Longrightarrow> y \<in> set ys \<Longrightarrow> \<exists>x \<in> set xs. f x = Inr y"
  by (induction xs arbitrary: ys) (auto split: sum.splits)

text \<open>
  Every date string that the normaliser produces compares at most \<open>''Unknown''\<close> or is not
  parseable as a date.
\<close>

lemma normalizeData_dates:
  assumes "normalizeData js rawData = Inr out" and "r \<in> set out"
  shows "Date r \<le> ''Unknown'' \<or> dateParse js (Date r) = None"
proof -
  from assms obtain rs where rs: "mapM (normalizeRow js) rawData = Inr rs" and "r \<in> set rs"
    by (auto simp: normalizeData_def split: sum.splits)
  from set_mapM [OF this] obtain row where "normalizeRow js row = Inr r"
    by blast
  then have "normalizeDate js (getVal js row datePatterns) = Inr (Date r)"
    by (auto simp: normalizeRow_def Let_def split: sum.splits)
  then show ?thesis by (rule normalizeDate_form)
qed

text \<open>
  Claim C10, as amended. Let \<^verbatim>\<open>new Date('Unknown')\<close> be an invalid date, and let every
  date string of the product \<open>p\<close> either compare at most \<open>''Unknown''\<close> (as the marker
  itself and every \<^verbatim>\<open>YYYY-MM-DD\<close> string do, lemma \<open>isYMD_less_Unknown\<close>) or be
  itself not parseable as a date. If one record of \<open>p\<close> has the date \<open>''Unknown''\<close>, then
  \<open>p\<close> is in no alert, for any threshold: the last-sale date selected for \<open>p\<close> is at least
  \<open>''Unknown''\<close>, its date is invalid, the days since the last sale are NaN and the threshold
  test rejects them. When all date strings of \<open>p\<close> compare at most \<open>''Unknown''\<close>, the selected
  last-sale date is \<open>''Unknown''\<close> itself. Every record that \<^verbatim>\<open>normalizeData\<close> produces has
  a date string of the assumed kind (lemma \<open>normalizeData_dates\<close>).
\<close>

theorem unknown_date_never_flagged:
  assumes unknown: "dateParse js ''Unknown'' = None"
    and dates: "\<forall>r \<in> set data. Product r = p \<longrightarrow> Date r \<le> ''Unknown'' \<or> dateParse js (Date r) = None"
    and marked: "\<exists>r \<in> set data. Product r = p \<and> Date r = ''Unknown''"
  shows "p \<notin> productName ` set (detectSlowMoving js data thresholdDays) \<and>
         (\<exists>lastSale qtySum cat.
             (p, lastSale, qtySum, cat) \<in> set (lastSales data) \<and>
             ''Unknown'' \<le> lastSale \<and>
             newDate js (JStr lastSale) = None \<and>
             ceilDaysBetween (lastObservedDate js data) (newDate js (JStr lastSale)) = NaN \<and>
             ((\<forall>r \<in> set data. Product r = p \<longrightarrow> Date r \<le> ''Unknown'') \<longrightarrow> lastSale = ''Unknown''))"
proof -
  from marked obtain r0 where r0: "r0 \<in> set data" "Product r0 = p" "Date r0 = ''Unknown''"
    by blast
  from lastSales_has_product [OF r0(1)] r0(2) obtain lastSale qtySum cat
    where e: "(p, lastSale, qtySum, cat) \<in> set (lastSales data)"
    by auto
  from lastSales_entry [OF e] obtain r1 where r1: "r1 \<in> set data" "Product r1 = p" "Date r1 = lastSale"
    and upper: "\<forall>r \<in> set data. Product r = p \<longrightarrow> Date r \<le> lastSale"
    by blast
  from upper r0 have ge: "''Unknown'' \<le> lastSale"
    by metis
  have invalid: "newDate js (JStr lastSale) = None"
  proof (cases "lastSale = ''Unknown''")
    case True
    with unknown show ?thesis by simp
  next
    case False
    with ge have "\<not> lastSale \<le> ''Unknown''" by simp
    with dates r1 show ?thesis by auto
  qed
  then have nan: "ceilDaysBetween d (newDate js (JStr lastSale)) = NaN" for d
    by (simp add: ceilDaysBetween_def split: option.splits)
  have selected: "lastSale = ''Unknown''" if "\<forall>r \<in> set data. Product r = p \<longrightarrow> Date r \<le> ''Unknown''"
    using that r1 ge by (metis antisym)
  have absent: "p \<notin> productName ` set (detectSlowMoving js data thresholdDays)"
  proof
    assume "p \<in> productName ` set (detectSlowMoving js data thresholdDays)"
    then obtain a where a: "a \<in> set (detectSlowMoving js data thresholdDays)" and pa: "productName a = p"
      by auto
    from detectSlowMoving_member [OF a] pa obtain lastSale' qtySum' cat'
      where e': "(p, lastSale', qtySum', cat') \<in> set (lastSales data)"
        and a': "a \<in> set (alertFor js (lastObservedDate js data) thresholdDays (p, lastSale', qtySum', cat'))"
      by auto
    from lastSales_unique [OF e e'] have "lastSale' = lastSale" by simp
    with alertFor_member [OF a'] nan [of "lastObservedDate js data"] show False
      by simp
  qed
  from absent e ge invalid nan selected show ?thesis by blast
qed


theorem unknown_date_never_flagged_witness:
  "dateParse sampleHost ''Unknown'' = None \<and>
   Product (slowData ! 4) = ''Speaker'' \<and> Date (slowData ! 4) = ''Unknown'' \<and>
   ''Speaker'' \<notin> productName ` set (detectSlowMoving sampleHost slowData 30)"
proof -
  have unknown: "dateParse sampleHost ''Unknown'' = None"
    by code_simp
  have dates: "\<forall>r \<in> set slowData. Product r = ''Speaker'' \<longrightarrow>
                 Date r \<le> ''Unknown'' \<or> dateParse sampleHost (Date r) = None"
    by (simp add: slowData_def sale_def)
  have marked: "\<exists>r \<in> set slowData. Product r = ''Speaker'' \<and> Date r = ''Unknown''"
    by (simp add: slowData_def sale_def)
  have row: "Product (slowData ! 4) = ''Speaker'' \<and> Date (slowData ! 4) = ''Unknown''"
    by (simp add: slowData_def sale_def)
  from unknown_date_never_flagged [OF unknown dates marked, of 30]
  have "''Speaker'' \<notin> productName ` set (detectSlowMoving sampleHost slowData 30)"
    by blast
  with unknown row show ?thesis by simp
qed


text \<open>
  Claim C10 as stated fails in two ways. The rows of one product with no date and with the
  date text \<open>''n/a''\<close> are normalised to the dates \<open>''Unknown''\<close> and \<open>''n/a''\<close>; the
  comparison selects \<open>''n/a''\<close>, not \<open>''Unknown''\<close>, as the last sale (the product is still
  not flagged). And among records not produced by the normaliser, a product with one record
  dated \<open>''Unknown''\<close> and one dated by a string in the format of \<^verbatim>\<open>toUTCString\<close>, which
  starts with \<open>W\<close> and compares greater than \<open>''Unknown''\<close>, gets that string as its last
  sale, a valid date 35 days before the last observed date, and is flagged.
\<close>

theorem unknown_date_counterexample:
  "normalizeData sampleHost [noDateRow, textDateRow] = Inr textDateData \<and>
   Product (textDateData ! 0) = ''Speaker'' \<and> Date (textDateData ! 0) = ''Unknown'' \<and>
   map fst (lastSales textDateData) = [''Speaker''] \<and>
   map (fst \<circ> snd) (lastSales textDateData) = [''n/a''] \<and>
   Product (utcStringData ! 1) = ''Speaker'' \<and> Date (utcStringData ! 1) = ''Unknown'' \<and>
   map productName (detectSlowMoving sampleHost utcStringData 30) = [''Speaker''] \<and>
   map daysSinceLastSale (detectSlowMoving sampleHost utcStringData 30) = [35]"
  by code_simp

section \<open>Inventory metrics\<close>

lemma set_uniqueFirst: "set (uniqueFirst xs) = set xs"
  by (induction xs) auto

lemma distinct_uniqueFirst: "distinct (uniqueFirst xs)"
  by (induction xs) (auto simp: set_uniqueFirst)

lemma totalDays_distinctDays: "totalDays data = distinctDays data"
proof -
  have "length (uniqueFirst (map Date data)) = card (Date ` set data)"
    using distinct_card [OF distinct_uniqueFirst, of "map Date data"]
    by (simp add: set_uniqueFirst)
  then have "length (sort (uniqueFirst (map Date data))) = card (Date ` set data)"
    by simp
  then show ?thesis
    unfolding totalDays_def distinctDays_def Let_def
    by (cases "card (Date ` set data)") simp_all
qed

lemma distinct_map_insertBy:
  "distinct (map f (insertBy cmp x ys)) \<longleftrightarrow> f x \<notin> f ` set ys \<and> distinct (map f ys)"
  by (induction ys) (auto simp: set_insertBy)

lemma distinct_map_sortBy: "distinct (map f (sortBy cmp xs)) \<longleftrightarrow> distinct (map f xs)"
proof (induction xs)
  case Nil
  show ?case by (simp add: sortBy_def)
next
  case (Cons x xs)
  have "sortBy cmp (x # xs) = insertBy cmp x (sortBy cmp xs)"
    by (simp add: sortBy_def)
  with Cons show ?case
    by (simp add: distinct_map_insertBy set_sortBy)
qed

lemma push_fold:
  "foldl (\<lambda>v row. (\<lambda>(qty, cat). (qty @ [Quantity row], cat)) v) (q0, c0) rows
   = (q0 @ map Quantity rows, c0)"
  by (induction rows arbitrary: q0) simp_all

lemma inventory_entry:
  assumes "(k, qty, cat) \<in> set (forEachGroup Product (\<lambda>row. ([], Category row))
                         (\<lambda>row (qty, cat). (qty @ [Quantity row], cat)) data)"
  shows "qty = productQuantities data k"
proof -
  from assms have "groupValue (\<lambda>row. ([], Category row))
      (\<lambda>row (qty, cat). (qty @ [Quantity row], cat)) (filter (\<lambda>r. Product r = k) data)
      = Some (qty, cat)"
    by (simp add: forEachGroup_entry)
  then show ?thesis
    by (auto simp: groupValue_def push_fold productQuantities_def
        simp del: foldl_Cons split: list.splits)
qed

lemma inventoryRow_fields:
  "inventoryRow ar days L (k, qs, cat) =
     \<lparr> productName = k, category = cat,
       avgDailySales = fdiv ar (mathRound (fmul ar (fdiv ar (foldl (\<lambda>a b. fadd ar a b) 0 qs) days) 100)) 100,
       salesVariance = mapNum (\<lambda>s. fdiv ar (mathRound (fmul ar s 100)) 100) (populationStdDev ar qs),
       suggestedOrderQty = mathCeil (fmul ar (fdiv ar (foldl (\<lambda>a b. fadd ar a b) 0 qs) days) 30),
       safetyStock = mapNum2 (\<lambda>s root. mathCeil (fmul ar (fmul ar (fconst ar 1.65) s) root))
                       (populationStdDev ar qs) (fsqrt ar L),
       reorderPoint = mapNum (\<lambda>s. mathCeil (fadd ar s (fmul ar (fdiv ar (foldl (\<lambda>a b. fadd ar a b) 0 qs) days) L)))
                        (mapNum2 (\<lambda>s root. mathCeil (fmul ar (fmul ar (fconst ar 1.65) s) root))
                           (populationStdDev ar qs) (fsqrt ar L)) \<rparr>"
  by (simp add: inventoryRow_def Let_def populationStdDev_def)

text \<open>
  Claim C3, as amended. For every record set and lead time \<open>L\<close>, and whatever the
  arithmetic of the host, the output of \<^verbatim>\<open>calculateInventoryMetrics\<close> has one entry per
  product. With the daily average \<open>total quantity / distinct dates\<close> (at least one date)
  and the population standard deviation of the product's per-record quantities, both as the
  host computes them, the entry carries \<open>safetyStock = ceil(1.65 \<times> stdDev \<times> sqrt L)\<close>,
  \<open>reorderPoint = ceil(safetyStock + average \<times> L)\<close> and
  \<open>suggestedOrderQty = ceil(average \<times> 30)\<close>, the ceiling taken of the product or sum that
  the host has computed from the unrounded average and deviation (NaN where a root is NaN),
  while the fields \<open>avgDailySales\<close> and \<open>salesVariance\<close> hold
  \<^verbatim>\<open>Math.round(value * 100) / 100\<close> of the average and the deviation. The output is sorted
  descending by the rounded field \<open>avgDailySales\<close> where the host's difference of two such
  fields has the sign of the exact one, as it has for IEEE doubles.
\<close>

theorem calculateInventoryMetrics_formulas:
  "(\<forall>m \<in> set (calculateInventoryMetrics ar data L).
      productName m \<in> Product ` set data \<and>
      avgDailySales m = fdiv ar (mathRound (fmul ar (dailyAverage ar data (productName m)) 100)) 100 \<and>
      salesVariance m = mapNum (\<lambda>s. fdiv ar (mathRound (fmul ar s 100)) 100)
                          (populationStdDev ar (productQuantities data (productName m))) \<and>
      safetyStock m = mapNum2 (\<lambda>s root. mathCeil (fmul ar (fmul ar (fconst ar 1.65) s) root))
                        (populationStdDev ar (productQuantities data (productName m))) (fsqrt ar L) \<and>
      reorderPoint m = mapNum (\<lambda>s. mathCeil (fadd ar s (fmul ar (dailyAverage ar data (productName m)) L)))
                         (safetyStock m) \<and>
      suggestedOrderQty m = mathCeil (fmul ar (dailyAverage ar data (productName m)) 30)) \<and>
   (signFaithful ar (avgDailySales ` set (calculateInventoryMetrics ar data L)) \<longrightarrow>
      sorted_wrt (\<lambda>a b. avgDailySales a \<ge> avgDailySales b) (calculateInventoryMetrics ar data L)) \<and>
   distinct (map productName (calculateInventoryMetrics ar data L)) \<and>
   set (map productName (calculateInventoryMetrics ar data L)) = Product ` set data"
proof -
  define productMap where "productMap = forEachGroup Product (\<lambda>row. ([], Category row))
                         (\<lambda>row (qty, cat). (qty @ [Quantity row], cat)) data"
  define rows where "rows = map (inventoryRow ar (distinctDays data) L) productMap"
  have out: "calculateInventoryMetrics ar data L
      = sortBy (\<lambda>a b. fsub ar (avgDailySales b) (avgDailySales a)) rows"
    by (simp add: calculateInventoryMetrics_def productMap_def rows_def totalDays_distinctDays)
  have names: "map productName rows = map fst productMap"
    by (auto simp: rows_def inventoryRow_fields)
  have keys: "set (map fst productMap) = Product ` set data"
    unfolding productMap_def by (rule keys_forEachGroup)
  have dist: "distinct (map fst productMap)"
    unfolding productMap_def by (rule distinct_forEachGroup)

  have sorted: "signFaithful ar (avgDailySales ` set (calculateInventoryMetrics ar data L)) \<longrightarrow>
      sorted_wrt (\<lambda>a b. avgDailySales a \<ge> avgDailySales b) (calculateInventoryMetrics ar data L)"
    unfolding out set_sortBy by (rule impI) (rule sortBy_signFaithful)

  have distinct: "distinct (map productName (calculateInventoryMetrics ar data L))"
    using dist names by (simp add: out distinct_map_sortBy)
  have "set (map productName (calculateInventoryMetrics ar data L)) = productName ` set rows"
    by (simp add: out set_sortBy)
  also have "\<dots> = set (map productName rows)"
    by simp
  also have "\<dots> = Product ` set data"
    unfolding names by (rule keys)
  finally have set: "set (map productName (calculateInventoryMetrics ar data L)) = Product ` set data" .

  have fields: "productName m \<in> Product ` set data \<and>
      avgDailySales m = fdiv ar (mathRound (fmul ar (dailyAverage ar data (productName m)) 100)) 100 \<and>
      salesVariance m = mapNum (\<lambda>s. fdiv ar (mathRound (fmul ar s 100)) 100)
                          (populationStdDev ar (productQuantities data (productName m))) \<and>
      safetyStock m = mapNum2 (\<lambda>s root. mathCeil (fmul ar (fmul ar (fconst ar 1.65) s) root))
                        (populationStdDev ar (productQuantities data (productName m))) (fsqrt ar L) \<and>
      reorderPoint m = mapNum (\<lambda>s. mathCeil (fadd ar s (fmul ar (dailyAverage ar data (productName m)) L)))
                         (safetyStock m) \<and>
      suggestedOrderQty m = mathCeil (fmul ar (dailyAverage ar data (productName m)) 30)"
    if "m \<in> set (calculateInventoryMetrics ar data L)" for m
  proof -
    from that have "m \<in> set rows"
      by (simp add: out set_sortBy)
    then obtain k qs cat where e: "(k, qs, cat) \<in> set productMap"
      and m: "m = inventoryRow ar (distinctDays data) L (k, qs, cat)"
      by (auto simp: rows_def)
    from e have qs: "qs = productQuantities data k"
      unfolding productMap_def by (rule inventory_entry)
    from e keys have k: "k \<in> Product ` set data"
      by (metis fst_conv image_eqI set_map)
    show ?thesis
      unfolding m inventoryRow_fields qs
      using k by (simp add: dailyAverage_def)
  qed
  from fields sorted distinct set show ?thesis by blast
qed

text \<open>
  Claim C3 as stated fails: two products sold on one day, 1 and 257/256 units. Both averages
  give \<^verbatim>\<open>Math.round(average * 100) / 100 = 1\<close>, so the field \<open>avgDailySales\<close> is not the
  average, and the stable sort leaves the product with the smaller average in front. The
  quantities are binary fractions, so that IEEE arithmetic computes the averages and the
  two fields without rounding error, as exact arithmetic does.
\<close>

theorem calculateInventoryMetrics_counterexample:
  "map productName (calculateInventoryMetrics exactArith nearTieData 7) = [''Cable A'', ''Cable B''] \<and>
   map avgDailySales (calculateInventoryMetrics exactArith nearTieData 7) = [1, 1] \<and>
   dailyAverage exactArith nearTieData ''Cable A'' = 1 \<and>
   dailyAverage exactArith nearTieData ''Cable B'' = 257 / 256"
  by (simp add: calculateInventoryMetrics_def forEachGroup_def upsert_def mapHas_def
      nearTieData_def sale_def inventoryRow_def totalDays_def sortBy_def mathRound_def Let_def
      dailyAverage_def productQuantities_def distinctDays_def exactArith_def)

theorem calculateInventoryMetrics_formulas_witness:
  "map productName (calculateInventoryMetrics exactArith stockData 4) = [''Desk fan'', ''Sony TV''] \<and>
   map avgDailySales (calculateInventoryMetrics exactArith stockData 4) = [2, 0.5] \<and>
   salesVariance (hd (calculateInventoryMetrics exactArith stockData 4)) = Finite 1 \<and>
   safetyStock (hd (calculateInventoryMetrics exactArith stockData 4)) = Finite 4 \<and>
   reorderPoint (hd (calculateInventoryMetrics exactArith stockData 4)) = Finite 12 \<and>
   suggestedOrderQty (hd (calculateInventoryMetrics exactArith stockData 4)) = 60 \<and>
   sorted_wrt (\<lambda>a b. avgDailySales a \<ge> avgDailySales b) (calculateInventoryMetrics exactArith stockData 4)"
proof -
  let ?out = "calculateInventoryMetrics exactArith stockData 4"
  have names: "map productName ?out = [''Desk fan'', ''Sony TV'']"
    by (simp add: calculateInventoryMetrics_def forEachGroup_def upsert_def mapHas_def
      stockData_def sale_def inventoryRow_def totalDays_def sortBy_def mathRound_def Let_def
      exactArith_def)
  have avgs: "map avgDailySales ?out = [2, 0.5]"
    by (simp add: calculateInventoryMetrics_def forEachGroup_def upsert_def mapHas_def
      stockData_def sale_def inventoryRow_def totalDays_def sortBy_def mathRound_def Let_def
      exactArith_def)
  from names have hd: "hd ?out \<in> set ?out" and name: "productName (hd ?out) = ''Desk fan''"
    by (cases ?out; simp)+
  have qs: "productQuantities stockData ''Desk fan'' = [1, 3]"
    by (simp add: productQuantities_def stockData_def sale_def)
  have sd: "populationStdDev exactArith [1, 3] = Finite 1"
    by (simp add: populationStdDev_def exactArith_def mathSqrt_def Let_def power2_eq_square)
  have root: "fsqrt exactArith 4 = Finite 2"
    by (simp add: exactArith_def mathSqrt_def)
  have avg: "dailyAverage exactArith stockData ''Desk fan'' = 2"
    unfolding dailyAverage_def qs by (simp add: distinctDays_def stockData_def sale_def exactArith_def)
  have faithful: "signFaithful exactArith (avgDailySales ` set ?out)"
    by (rule signFaithful_exactArith)
  note formulas = calculateInventoryMetrics_formulas [of exactArith stockData 4]
  from formulas faithful have sorted: "sorted_wrt (\<lambda>a b. avgDailySales a \<ge> avgDailySales b) ?out"
    by blast
  from formulas hd
  have "salesVariance (hd ?out) = mapNum (\<lambda>s. fdiv exactArith (mathRound (fmul exactArith s 100)) 100)
            (populationStdDev exactArith (productQuantities stockData (productName (hd ?out))))"
    and "safetyStock (hd ?out) = mapNum2 (\<lambda>s root. mathCeil (fmul exactArith (fmul exactArith (fconst exactArith 1.65) s) root))
            (populationStdDev exactArith (productQuantities stockData (productName (hd ?out)))) (fsqrt exactArith 4)"
    and "reorderPoint (hd ?out) = mapNum (\<lambda>s. mathCeil (fadd exactArith s
            (fmul exactArith (dailyAverage exactArith stockData (productName (hd ?out))) 4))) (safetyStock (hd ?out))"
    and "suggestedOrderQty (hd ?out) = mathCeil (fmul exactArith (dailyAverage exactArith stockData (productName (hd ?out))) 30)"
    by blast+
  then have "salesVariance (hd ?out) = Finite 1" and "safetyStock (hd ?out) = Finite 4"
    and "reorderPoint (hd ?out) = Finite 12" and "suggestedOrderQty (hd ?out) = 60"
    unfolding name qs sd root avg
    by (simp_all add: mathCeil_def mathRound_def exactArith_def)
  with names avgs sorted show ?thesis by simp
qed

end
